theory Spec2Isabelle
  imports
    Main
    "HOL-Library.Char_ord"
    "HOL-Library.List_Lexorder"
    "HOL-Library.Multiset"
    "HOL-Library.Sublist"
begin

section \<open>Solr operator: generation of the Kubernetes objects of a SolrCloud\<close>

text \<open>
  A shallow embedding of \<^verbatim>\<open>controllers/util/solr_util.go\<close>. Go strings and byte
  slices are \<^typ>\<open>string\<close> (a \<^typ>\<open>char\<close> is one byte), Go maps are partial functions,
  a nil pointer is \<^term>\<open>None\<close>, and a draw from \<^verbatim>\<open>math/rand\<close> is an explicit
  argument of the function that draws it.
\<close>

subsection \<open>Basic-auth secrets\<close>

text \<open>The fields of \<^verbatim>\<open>corev1.Secret\<close> that the operator reads.\<close>

record Secret =
  secretName :: string
  secretType :: string
  secretData :: "string \<rightharpoonup> string"

datatype error = Errorf string

definition SecretTypeBasicAuth :: string where
  "SecretTypeBasicAuth = ''kubernetes.io/basic-auth''"

definition BasicAuthUsernameKey :: string where
  "BasicAuthUsernameKey = ''username''"

definition BasicAuthPasswordKey :: string where
  "BasicAuthPasswordKey = ''password''"

text \<open>
  \<^verbatim>\<open>ValidateBasicAuthSecret\<close> receives a pointer; the model returns the secret as it is
  after the call next to the error (\<^term>\<open>None\<close> is Go's \<^verbatim>\<open>nil\<close> error).
\<close>

definition ValidateBasicAuthSecret :: "Secret \<Rightarrow> Secret \<times> error option" where
  "ValidateBasicAuthSecret basicAuthSecret =
     (if secretType basicAuthSecret \<noteq> SecretTypeBasicAuth then
        (basicAuthSecret,
         Some (Errorf (''invalid secret type '' @ secretType basicAuthSecret
           @ ''; user-provided secret '' @ secretName basicAuthSecret
           @ '' must be of type: '' @ SecretTypeBasicAuth)))
      else if secretData basicAuthSecret BasicAuthUsernameKey = None then
        (basicAuthSecret,
         Some (Errorf (BasicAuthUsernameKey @ '' key not found in user-provided basic-auth secret ''
           @ secretName basicAuthSecret)))
      else if secretData basicAuthSecret BasicAuthPasswordKey = None then
        (basicAuthSecret,
         Some (Errorf (BasicAuthPasswordKey @ '' key not found in user-provided basic-auth secret ''
           @ secretName basicAuthSecret)))
      else (basicAuthSecret, None))"

subsection \<open>Random passwords\<close>

definition lower :: string where
  "lower = ''abcdefghijklmnpqrstuvwxyz''"

text \<open>\<^verbatim>\<open>strings.ToUpper\<close> on bytes: an ASCII lowercase letter moves down by 32.\<close>

definition ToUpper :: "string \<Rightarrow> string" where
  "ToUpper s =
     map (\<lambda>c. if CHR ''a'' \<le> c \<and> c \<le> CHR ''z'' then char_of (of_char c - (32::nat)) else c) s"

definition upper :: string where
  "upper = ToUpper lower"

definition digits :: string where
  "digits = ''0123456789''"

definition chars :: string where
  "chars = lower @ upper @ digits @ ''()[]%#@-()[]%#@-''"

text \<open>
  The loop \<^verbatim>\<open>for i := 1; i < len(pass)-1; i++ { pass[i] = chars[perm[i]] }\<close> over the
  indices it visits. An index out of range panics in Go: \<^term>\<open>None\<close>.
\<close>

fun fillInterior :: "nat list \<Rightarrow> nat list \<Rightarrow> string \<Rightarrow> string option" where
  "fillInterior perm [] pass = Some pass"
| "fillInterior perm (i # idxs) pass =
     (if i < length perm \<and> perm ! i < length chars \<and> i < length pass
      then fillInterior perm idxs (pass[i := chars ! (perm ! i)])
      else None)"

text \<open>
  \<^verbatim>\<open>randomPassword\<close>: \<open>r0\<close> and \<open>r1\<close> are the two results of \<^verbatim>\<open>rand.Intn(len(lower))\<close>
  and \<^verbatim>\<open>rand.Intn(len(upper))\<close>, \<open>perm\<close> is the result of \<^verbatim>\<open>rand.Perm(len(chars))\<close>,
  all drawn anew in every call after the generator is reseeded from the clock.
\<close>

definition randomPassword :: "nat \<Rightarrow> nat \<Rightarrow> nat list \<Rightarrow> string option" where
  "randomPassword r0 r1 perm =
     (let pass = replicate 16 (CHR 0x00) in
      if \<not> r0 < length lower then None
      else let pass = pass[0 := lower ! r0] in
      if \<not> r1 < length upper then None
      else let pass = pass[length pass - 1 := upper ! r1] in
      fillInterior perm [1 ..< length pass - 1] pass)"

text \<open>What \<^verbatim>\<open>math/rand\<close> promises about the three draws of one call.\<close>

definition validDraws :: "nat \<Rightarrow> nat \<Rightarrow> nat list \<Rightarrow> bool" where
  "validDraws r0 r1 perm \<longleftrightarrow>
     r0 < length lower \<and> r1 < length upper \<and> mset perm = mset [0 ..< length chars]"

subsection \<open>Password hashes\<close>

text \<open>
  \<^verbatim>\<open>encoding/base64\<close>: the standard encoding with padding. Three bytes give four
  characters of the alphabet; a last group of one or two bytes is padded with \<^verbatim>\<open>=\<close>.
\<close>

definition encodeStd :: string where
  "encodeStd = ''ABCDEFGHIJKLMNOPQRSTUVWXYZabcdefghijklmnopqrstuvwxyz0123456789+/''"

definition b64char :: "nat \<Rightarrow> char" where
  "b64char n = encodeStd ! n"

fun EncodeToString :: "string \<Rightarrow> string" where
  "EncodeToString [] = []"
| "EncodeToString [a] =
     [b64char (of_char a div 4), b64char ((of_char a mod 4) * 16), CHR ''='', CHR ''='']"
| "EncodeToString [a, b] =
     [b64char (of_char a div 4), b64char ((of_char a mod 4) * 16 + of_char b div 16),
      b64char ((of_char b mod 16) * 4), CHR ''='']"
| "EncodeToString (a # b # c # rest) =
     [b64char (of_char a div 4), b64char ((of_char a mod 4) * 16 + of_char b div 16),
      b64char ((of_char b mod 16) * 4 + of_char c div 64), b64char (of_char c mod 64)]
     @ EncodeToString rest"

definition b64index :: "char \<Rightarrow> nat option" where
  "b64index c = map_of (zip encodeStd [0 ..< 64]) c"

fun DecodeString :: "string \<Rightarrow> string option" where
  "DecodeString [] = Some []"
| "DecodeString [w, x, y, z] =
     (case (b64index w, b64index x) of
        (Some i, Some j) \<Rightarrow>
          if y = CHR ''='' \<and> z = CHR ''='' then
            (if j mod 16 = 0 then Some [char_of (i * 4 + j div 16)] else None)
          else (case b64index y of
                  None \<Rightarrow> None
                | Some k \<Rightarrow>
                    if z = CHR ''='' then
                      (if k mod 4 = 0
                       then Some [char_of (i * 4 + j div 16), char_of ((j mod 16) * 16 + k div 4)]
                       else None)
                    else (case b64index z of
                            None \<Rightarrow> None
                          | Some l \<Rightarrow>
                              Some [char_of (i * 4 + j div 16), char_of ((j mod 16) * 16 + k div 4),
                                    char_of ((k mod 4) * 64 + l)]))
      | _ \<Rightarrow> None)"
| "DecodeString (w # x # y # z # rest) =
     (case (b64index w, b64index x, b64index y, b64index z, DecodeString rest) of
        (Some i, Some j, Some k, Some l, Some bytes) \<Rightarrow>
          Some ([char_of (i * 4 + j div 16), char_of ((j mod 16) * 16 + k div 4),
                 char_of ((k mod 4) * 64 + l)] @ bytes)
      | _ \<Rightarrow> None)"
| "DecodeString _ = None"

text \<open>
  \<^verbatim>\<open>randomSaltHash\<close> and \<^verbatim>\<open>solrPasswordHash\<close>. \<open>Sum256\<close> is \<^verbatim>\<open>sha256.Sum256\<close> of the
  standard library; \<open>randRead n\<close> is the content that \<^verbatim>\<open>rand.Read\<close> gives a buffer of
  \<open>n\<close> bytes in this call.
\<close>

definition randomSaltHash :: "(string \<Rightarrow> string) \<Rightarrow> (nat \<Rightarrow> string) \<Rightarrow> string" where
  "randomSaltHash Sum256 randRead =
     (let b = replicate 32 (CHR 0x00);
          b = randRead (length b);
          salt = Sum256 b
      in salt)"

definition solrPasswordHash :: "(string \<Rightarrow> string) \<Rightarrow> (nat \<Rightarrow> string) \<Rightarrow> string \<Rightarrow> string" where
  "solrPasswordHash Sum256 randRead passBytes =
     (let salt = randomSaltHash Sum256 randRead;
          passHashBytes = Sum256 (salt @ passBytes);
          passHashBytes = Sum256 passHashBytes;
          passHash = EncodeToString passHashBytes
      in passHash @ '' '' @ EncodeToString salt)"

text \<open>
  The independent recomputation of the specification: split the credential at its first
  space, decode the second field to the salt, hash the salt followed by the password twice,
  encode, and compare with the first field.
\<close>

definition credentialFields :: "string \<Rightarrow> string \<times> string" where
  "credentialFields credential =
     (takeWhile (\<lambda>c. c \<noteq> CHR '' '') credential,
      drop 1 (dropWhile (\<lambda>c. c \<noteq> CHR '' '') credential))"

definition verifiesPassword :: "(string \<Rightarrow> string) \<Rightarrow> string \<Rightarrow> string \<Rightarrow> bool" where
  "verifiesPassword Sum256 credential passBytes =
     (case DecodeString (snd (credentialFields credential)) of
        None \<Rightarrow> False
      | Some salt \<Rightarrow>
          EncodeToString (Sum256 (Sum256 (salt @ passBytes))) = fst (credentialFields credential))"

subsection \<open>Kubernetes objects\<close>

text \<open>
  The parts of the Kubernetes API objects that the operator reads or writes. A pointer field
  is an \<open>option\<close>, a map is a partial function (Go's nil map is the empty one), a slice is
  a list. Objects that the operator only passes through (affinity, tolerations, quantities,
  the rest of a claim's specification) are kept as opaque strings.
\<close>

type_synonym labels = "string \<rightharpoonup> string"

record ObjectMeta =
  metaName :: string
  metaNamespace :: string
  metaLabels :: labels
  metaAnnotations :: labels

record HostPathVolumeSource =
  hostPathPath :: string
  hostPathType :: "string option"

record EmptyDirVolumeSource =
  emptyDirMedium :: string
  emptyDirSizeLimit :: "string option"

record KeyToPath =
  itemKey :: string
  itemPath :: string

record ConfigMapVolumeSource =
  configMapRefName :: string
  configMapItems :: "KeyToPath list"
  configMapDefaultMode :: "int option"

record SecretVolumeSource =
  secretRefName :: string
  secretDefaultMode :: "int option"

text \<open>\<^verbatim>\<open>corev1.VolumeSource\<close>: one pointer per kind of source; \<open>vsOther\<close> stands for the kinds
  the operator never builds itself.\<close>

record VolumeSource =
  vsHostPath :: "HostPathVolumeSource option"
  vsEmptyDir :: "EmptyDirVolumeSource option"
  vsConfigMap :: "ConfigMapVolumeSource option"
  vsSecret :: "SecretVolumeSource option"
  vsOther :: "string option"

definition emptyVolumeSource :: VolumeSource where
  "emptyVolumeSource =
     \<lparr>vsHostPath = None, vsEmptyDir = None, vsConfigMap = None, vsSecret = None, vsOther = None\<rparr>"

record Volume =
  volName :: string
  volSource :: VolumeSource

record VolumeMount =
  mountName :: string
  mountPath :: string
  mountSubPath :: string
  mountReadOnly :: bool

datatype EnvVarSource = FieldRef string string | SecretKeyRef string string | OtherEnvSource string

record EnvVar =
  envName :: string
  envValue :: string
  envValueFrom :: "EnvVarSource option"

datatype URIScheme = URISchemeHTTP | URISchemeHTTPS

record HTTPGetAction =
  httpScheme :: URIScheme
  httpPath :: string
  httpPort :: int

record Handler =
  handlerExec :: "string list option"
  handlerHTTPGet :: "HTTPGetAction option"
  handlerTCPSocket :: "int option"

record Probe =
  probeInitialDelaySeconds :: int
  probeTimeoutSeconds :: int
  probeSuccessThreshold :: int
  probeFailureThreshold :: int
  probePeriodSeconds :: int
  probeHandler :: Handler

record Lifecycle =
  lifecyclePostStart :: "Handler option"
  lifecyclePreStop :: "Handler option"

record ContainerPort =
  portContainerPort :: int
  portName :: string
  portProtocol :: string

record ResourceRequirements =
  resLimits :: "labels option"
  resRequests :: "labels option"

record PodSecurityContext =
  pscFSGroup :: "int option"
  pscOther :: string

record Container =
  containerName :: string
  containerImage :: string
  containerImagePullPolicy :: string
  containerCommand :: "string list"
  containerPorts :: "ContainerPort list"
  containerLivenessProbe :: "Probe option"
  containerReadinessProbe :: "Probe option"
  containerStartupProbe :: "Probe option"
  containerVolumeMounts :: "VolumeMount list"
  containerEnv :: "EnvVar list"
  containerLifecycle :: "Lifecycle option"
  containerResources :: ResourceRequirements
  containerTerminationMessagePath :: string
  containerTerminationMessagePolicy :: string

record PersistentVolumeClaimSpec =
  pvcAccessModes :: "string list"
  pvcVolumeMode :: "string option"
  pvcOtherSpec :: string

record PersistentVolumeClaim =
  pvcName :: string
  pvcLabels :: labels
  pvcAnnotations :: labels
  pvcSpec :: PersistentVolumeClaimSpec

record HostAlias =
  aliasIP :: string
  aliasHostnames :: "string list"

datatype StatefulSetUpdateStrategyType = OnDeleteStatefulSetStrategyType | RollingUpdateStatefulSetStrategyType

record PodSpec =
  podTerminationGracePeriodSeconds :: int
  podSecurityContext :: "PodSecurityContext option"
  podVolumes :: "Volume list"
  podInitContainers :: "Container list"
  podHostAliases :: "HostAlias list"
  podContainers :: "Container list"
  podImagePullSecrets :: "string list"
  podServiceAccountName :: string
  podAffinity :: "string option"
  podTolerations :: "string list option"
  podNodeSelector :: "labels option"
  podPriorityClassName :: string

record StatefulSet =
  ssMeta :: ObjectMeta
  ssSelectorMatchLabels :: labels
  ssServiceName :: string
  ssReplicas :: "int option"
  ssPodManagementPolicy :: string
  ssUpdateStrategy :: StatefulSetUpdateStrategyType
  ssTemplateLabels :: labels
  ssTemplateAnnotations :: labels
  ssTemplateSpec :: PodSpec
  ssVolumeClaimTemplates :: "PersistentVolumeClaim list"

record ConfigMap =
  cmMeta :: ObjectMeta
  cmData :: "string \<rightharpoonup> string"



record HTTPIngressPath =
  pathBackendServiceName :: string
  pathBackendServicePort :: int
  pathType :: string

record IngressRule =
  ruleHost :: string
  rulePaths :: "HTTPIngressPath list"

record IngressTLS =
  tlsSecretName :: string
  tlsHosts :: "string list"

record Ingress =
  ingMeta :: ObjectMeta
  ingRules :: "IngressRule list"
  ingTLS :: "IngressTLS list"

text \<open>Go's conversion \<^verbatim>\<open>int32(x)\<close> of an \<^verbatim>\<open>int\<close> keeps the low 32 bits, read as signed.\<close>

definition int32 :: "int \<Rightarrow> int" where
  "int32 x = signed_take_bit 31 x"

subsection \<open>The SolrCloud resource\<close>

text \<open>
  The fields of \<^verbatim>\<open>solr.SolrCloud\<close> and \<^verbatim>\<open>solr.SolrCloudStatus\<close> that \<^verbatim>\<open>solr_util.go\<close>
  reads. Their type declarations are in the package \<^verbatim>\<open>api/v1beta1\<close>; the records follow
  the field accesses of the source.
\<close>

datatype ExternalMethod = Ingress | ExternalDNS

record ExternalAddressability =
  extMethod :: ExternalMethod
  extDomainName :: string
  extAdditionalDomainNames :: "string list"
  extHideCommon :: bool
  extHideNodes :: bool
  extIngressTLSTerminationSecret :: string

record SolrAddressabilityOptions =
  addrPodPort :: int
  addrCommonServicePort :: int
  addrExternal :: "ExternalAddressability option"

text \<open>The options of one kind of generated object: its extra labels and annotations.\<close>

record ObjectOptions =
  optLabels :: labels
  optAnnotations :: labels

record StatefulSetOptions =
  ssOptLabels :: labels
  ssOptAnnotations :: labels
  ssOptPodManagementPolicy :: string

record AdditionalVolume =
  addVolName :: string
  addVolSource :: VolumeSource
  addVolDefaultContainerMount :: "VolumeMount option"

record PodOptions =
  podOptLabels :: labels
  podOptAnnotations :: labels
  podOptTerminationGracePeriodSeconds :: "int option"
  podOptVolumes :: "AdditionalVolume list"
  podOptEnvVariables :: "EnvVar list"
  podOptInitContainers :: "Container list"
  podOptSidecarContainers :: "Container list"
  podOptImagePullSecrets :: "string list"
  podOptServiceAccountName :: string
  podOptAffinity :: "string option"
  podOptResources :: ResourceRequirements
  podOptPodSecurityContext :: "PodSecurityContext option"
  podOptLifecycle :: "Lifecycle option"
  podOptTolerations :: "string list option"
  podOptNodeSelector :: "labels option"
  podOptStartupProbe :: "Probe option"
  podOptLivenessProbe :: "Probe option"
  podOptReadinessProbe :: "Probe option"
  podOptPriorityClassName :: string

record CustomSolrKubeOptions =
  customStatefulSetOptions :: "StatefulSetOptions option"
  customPodOptions :: "PodOptions option"
  customConfigMapOptions :: "ObjectOptions option"
  customCommonServiceOptions :: "ObjectOptions option"
  customHeadlessServiceOptions :: "ObjectOptions option"
  customNodeServiceOptions :: "ObjectOptions option"
  customIngressOptions :: "ObjectOptions option"

record SolrEphemeralDataStorageOptions =
  ephemeralHostPath :: "HostPathVolumeSource option"
  ephemeralEmptyDir :: "EmptyDirVolumeSource option"

record SolrDataStorageOptions =
  storagePersistentPVCTemplate :: "PersistentVolumeClaim option"
  storageEphemeral :: "SolrEphemeralDataStorageOptions option"

text \<open>A backup repository: its name and its variant with the variant's own fields, which
  only functions outside this file read.\<close>

datatype RepositoryVariant = GcsRepository string | S3Repository string | ManagedRepository string

record SolrBackupRepository =
  repoName :: string
  repoVariant :: RepositoryVariant

record ContainerImage =
  imageRepository :: string
  imageTag :: string
  imagePullPolicy :: string
  imagePullSecret :: string

datatype ClientAuthType = ClientAuthNone | ClientAuthWant | ClientAuthNeed

record SolrTLSOptions =
  tlsPKCS12SecretName :: "string option"
  tlsClientAuth :: ClientAuthType

record SolrSecurityOptions =
  securityProbesRequireAuth :: bool

datatype UpdateMethod = StatefulSetUpdate | ManagedUpdate | ManualUpdate

record SolrCloudSpec =
  specReplicas :: "int option"
  specSolrAddressability :: SolrAddressabilityOptions
  specCustomSolrKubeOptions :: CustomSolrKubeOptions
  specStorageOptions :: SolrDataStorageOptions
  specBackupRepositories :: "SolrBackupRepository list"
  specSolrImage :: ContainerImage
  specBusyBoxImage :: ContainerImage
  specSolrJavaMem :: string
  specSolrLogLevel :: string
  specSolrGCTune :: string
  specSolrOpts :: string
  specUpdateStrategyMethod :: UpdateMethod
  specSolrTLS :: "SolrTLSOptions option"
  specSolrSecurity :: "SolrSecurityOptions option"
  specZookeeperACLs :: string

record SolrCloud =
  cloudName :: string
  cloudNamespace :: string
  cloudLabels :: labels
  cloudSpec :: SolrCloudSpec

text \<open>\<^verbatim>\<open>TLSCerts\<close>: the server configuration's options, when there is a server configuration.\<close>

record TLSCerts =
  tlsServerConfig :: "SolrTLSOptions option"
  tlsClientConfig :: "SolrTLSOptions option"

subsection \<open>Functions of the repository outside this file\<close>

text \<open>
  \<^verbatim>\<open>solr_util.go\<close> calls methods of \<^verbatim>\<open>solr.SolrCloud\<close> and \<^verbatim>\<open>solr.SolrCloudStatus\<close>
  (package \<^verbatim>\<open>api/v1beta1\<close>) and helpers of its own package that live in other files
  (label merging, backup repositories, TLS, probe customisation). They are parameters of
  the embedding, collected in one record; every function below takes it as its first
  argument, and every theorem holds for all of them unless it says otherwise. They are
  taken to return new values and to leave their arguments as they are. The status is
  opaque: only \<open>ZkConnectionString\<close> and \<open>DissectZkInfo\<close> read it.
\<close>

type_synonym SolrCloudStatus = string

record api =
  SolrTechnologyLabel :: string
  PublicReadOnlyPermissions :: int
  SecretReadOnlyPermissions :: int
  SharedLabelsWith :: "SolrCloud \<Rightarrow> labels \<Rightarrow> labels"
  SharedLabels :: "SolrCloud \<Rightarrow> labels"
  MergeLabelsOrAnnotations :: "labels \<Rightarrow> labels \<Rightarrow> labels"
  StatefulSetName :: "SolrCloud \<Rightarrow> string"
  HeadlessServiceName :: "SolrCloud \<Rightarrow> string"
  CommonServiceName :: "SolrCloud \<Rightarrow> string"
  ConfigMapName :: "SolrCloud \<Rightarrow> string"
  CommonIngressName :: "SolrCloud \<Rightarrow> string"
  BasicAuthSecretName :: "SolrCloud \<Rightarrow> string"
  SecurityBootstrapSecretName :: "SolrCloud \<Rightarrow> string"
  NodePort :: "SolrCloud \<Rightarrow> int"
  AdvertisedNodeHost :: "SolrCloud \<Rightarrow> string \<Rightarrow> string"
  UsesPersistentStorage :: "SolrCloud \<Rightarrow> bool"
  UrlScheme :: "SolrCloud \<Rightarrow> bool \<Rightarrow> string"
  ExternalDnsDomain :: "SolrCloud \<Rightarrow> string \<Rightarrow> string"
  ExternalCommonUrl :: "SolrCloud \<Rightarrow> string \<Rightarrow> bool \<Rightarrow> string"
  ExternalNodeUrl :: "SolrCloud \<Rightarrow> string \<Rightarrow> string \<Rightarrow> bool \<Rightarrow> string"
  ToImageName :: "ContainerImage \<Rightarrow> string"
  ZkConnectionString :: "SolrCloudStatus \<Rightarrow> string"
  DissectZkInfo :: "SolrCloudStatus \<Rightarrow> string \<times> string \<times> string"
  ZkACLEnvVars :: "SolrCloud \<Rightarrow> bool \<times> EnvVar list"
  AdditionalRepoLibs :: "SolrBackupRepository \<Rightarrow> string list"
  RepoXML :: "SolrBackupRepository \<Rightarrow> string"
  RepoVolumeSourceAndMount ::
    "SolrBackupRepository \<Rightarrow> string \<Rightarrow> VolumeSource option \<times> VolumeMount option"
  RepoVolumeName :: "SolrBackupRepository \<Rightarrow> string"
  IsRepoManaged :: "SolrBackupRepository \<Rightarrow> bool"
  secureProbeTLSJavaToolOpts :: "SolrCloud \<Rightarrow> string \<times> string"
  setUrlSchemeClusterPropCmd :: string
  customizeProbe :: "Probe \<Rightarrow> Probe \<Rightarrow> Probe"
  enableTLSOnSolrCloudStatefulSet :: "TLSCerts \<Rightarrow> StatefulSet \<Rightarrow> StatefulSet"

subsection \<open>Strings\<close>

text \<open>\<^verbatim>\<open>strings.Join\<close>.\<close>

fun Join :: "string list \<Rightarrow> string \<Rightarrow> string" where
  "Join [] sep = ''''"
| "Join [x] sep = x"
| "Join (x # y # ys) sep = x @ sep @ Join (y # ys) sep"

text \<open>\<^verbatim>\<open>strings.ReplaceAll(s, ".", "-")\<close>: both strings are single bytes.\<close>

definition ReplaceAllDotDash :: "string \<Rightarrow> string" where
  "ReplaceAllDotDash s = map (\<lambda>c. if c = CHR ''.'' then CHR ''-'' else c) s"

text \<open>Decimal digits of a natural number, and \<^verbatim>\<open>strconv.Itoa\<close>.\<close>

fun natDigits :: "nat \<Rightarrow> string" where
  "natDigits n =
     (if n < 10 then [char_of (48 + n)] else natDigits (n div 10) @ [char_of (48 + n mod 10)])"

definition Itoa :: "int \<Rightarrow> string" where
  "Itoa i = (if i < 0 then CHR ''-'' # natDigits (nat (- i)) else natDigits (nat i))"

text \<open>
  White space: the class \<^verbatim>\<open>\s\<close> of Go's regular expressions is tab, newline, form feed,
  carriage return and space; \<^verbatim>\<open>strings.TrimSpace\<close> also trims the vertical tab (the
  multi-byte Unicode spaces are left aside).
\<close>

definition isRegexpSpace :: "char \<Rightarrow> bool" where
  "isRegexpSpace c \<longleftrightarrow> c \<in> set [CHR 0x09, CHR 0x0A, CHR 0x0C, CHR 0x0D, CHR 0x20]"

definition isTrimSpace :: "char \<Rightarrow> bool" where
  "isTrimSpace c \<longleftrightarrow> c \<in> set [CHR 0x09, CHR 0x0A, CHR 0x0B, CHR 0x0C, CHR 0x0D, CHR 0x20]"

definition TrimSpace :: "string \<Rightarrow> string" where
  "TrimSpace s = rev (dropWhile isTrimSpace (rev (dropWhile isTrimSpace s)))"

text \<open>\<^verbatim>\<open>regexp.MustCompile(`\s+`).ReplaceAllString(s, " ")\<close>: every maximal run of white
  space becomes one space.\<close>

fun collapseRun :: "bool \<Rightarrow> string \<Rightarrow> string" where
  "collapseRun inRun [] = []"
| "collapseRun inRun (c # cs) =
     (if isRegexpSpace c
      then (if inRun then collapseRun True cs else CHR '' '' # collapseRun True cs)
      else c # collapseRun False cs)"

definition collapseSpaces :: "string \<Rightarrow> string" where
  "collapseSpaces s = collapseRun False s"

text \<open>A map lookup whose result is used without the presence flag: a missing key gives
  the empty string.\<close>

definition lookupString :: "labels \<Rightarrow> string \<Rightarrow> string" where
  "lookupString m k = (case m k of None \<Rightarrow> '''' | Some v \<Rightarrow> v)"

subsection \<open>Constants of the package\<close>

definition SolrClientPortName :: string where "SolrClientPortName = ''solr-client''"
definition SolrNodeContainer :: string where "SolrNodeContainer = ''solrcloud-node''"
definition DefaultSolrUser :: int where "DefaultSolrUser = 8983"
definition DefaultSolrGroup :: int where "DefaultSolrGroup = 8983"
definition SolrZKConnectionStringAnnotation :: string where
  "SolrZKConnectionStringAnnotation = ''solr.apache.org/zkConnectionString''"
definition SolrPVCTechnologyLabel :: string where
  "SolrPVCTechnologyLabel = ''solr.apache.org/technology''"
definition SolrCloudPVCTechnology :: string where "SolrCloudPVCTechnology = ''solr-cloud''"
definition SolrPVCStorageLabel :: string where "SolrPVCStorageLabel = ''solr.apache.org/storage''"
definition SolrCloudPVCDataStorage :: string where "SolrCloudPVCDataStorage = ''data''"
definition SolrPVCInstanceLabel :: string where "SolrPVCInstanceLabel = ''solr.apache.org/instance''"
definition SolrXmlMd5Annotation :: string where "SolrXmlMd5Annotation = ''solr.apache.org/solrXmlMd5''"
definition SolrXmlFile :: string where "SolrXmlFile = ''solr.xml''"
definition LogXmlMd5Annotation :: string where "LogXmlMd5Annotation = ''solr.apache.org/logXmlMd5''"
definition LogXmlFile :: string where "LogXmlFile = ''log4j2.xml''"
definition SecurityJsonFile :: string where "SecurityJsonFile = ''security.json''"
definition DefaultProbePath :: string where "DefaultProbePath = ''/admin/info/system''"
definition DefaultStatefulSetPodManagementPolicy :: string where
  "DefaultStatefulSetPodManagementPolicy = ''Parallel''"

subsection \<open>The backup section of solr.xml and the ConfigMap\<close>

text \<open>
  \<^verbatim>\<open>GenerateBackupRepositoriesForSolrXml\<close>. The set \<open>libs\<close> is the key set of the Go map
  of the same name; \<open>rangeOrder\<close> gives the order in which this call's
  \<^verbatim>\<open>for lib := range libs\<close> visits the keys, which Go leaves unspecified.
\<close>

definition GenerateBackupRepositoriesForSolrXml ::
  "api \<Rightarrow> (string set \<Rightarrow> string list) \<Rightarrow> SolrBackupRepository list \<Rightarrow> string" where
  \<open>GenerateBackupRepositoriesForSolrXml api rangeOrder backupRepos =
     (if length backupRepos = 0 then ''''
      else
        let libs = set (concat (map (AdditionalRepoLibs api) backupRepos));
            repoXMLs = sort (map (RepoXML api) backupRepos);
            libXml =
              (if libs \<noteq> {}
               then let libList = sort (rangeOrder libs)
                    in ''<str name="sharedLib">'' @ Join libList '','' @ ''</str>''
               else '''')
        in libXml @ '' \<newline>'' @ [CHR 0x09, CHR 0x09] @ ''<backup>\<newline>'' @ [CHR 0x09, CHR 0x09]
           @ Join repoXMLs ''\<newline>'' @ ''\<newline>'' @ [CHR 0x09, CHR 0x09] @ ''</backup>'')\<close>

text \<open>What Go promises about one \<^verbatim>\<open>range\<close> over the keys of a map: every key once.\<close>

definition validRangeOrder :: "(string set \<Rightarrow> string list) \<Rightarrow> string set \<Rightarrow> bool" where
  "validRangeOrder rangeOrder keys \<longleftrightarrow> set (rangeOrder keys) = keys \<and> distinct (rangeOrder keys)"

definition repoLibs :: "api \<Rightarrow> SolrBackupRepository list \<Rightarrow> string set" where
  "repoLibs api backupRepos = set (concat (map (AdditionalRepoLibs api) backupRepos))"

text \<open>\<^verbatim>\<open>DefaultSolrXML\<close>, before and after its one \<^verbatim>\<open>%s\<close>.\<close>

definition DefaultSolrXMLBefore :: string where
  \<open>DefaultSolrXMLBefore =
     ''<?xml version="1.0" encoding="UTF-8" ?>\<newline>''
     @ ''<solr>\<newline>''
     @ ''  <solrcloud>\<newline>''
     @ ''    <str name="host">${host:}</str>\<newline>''
     @ ''    <int name="hostPort">${hostPort:80}</int>\<newline>''
     @ ''    <str name="hostContext">${hostContext:solr}</str>\<newline>''
     @ ''    <bool name="genericCoreNodeNames">${genericCoreNodeNames:true}</bool>\<newline>''
     @ ''    <int name="zkClientTimeout">${zkClientTimeout:30000}</int>\<newline>''
     @ ''    <int name="distribUpdateSoTimeout">${distribUpdateSoTimeout:600000}</int>\<newline>''
     @ ''    <int name="distribUpdateConnTimeout">${distribUpdateConnTimeout:60000}</int>\<newline>''
     @ ''    <str name="zkCredentialsProvider">${zkCredentialsProvider:org.apache.solr.common.cloud.DefaultZkCredentialsProvider}</str>\<newline>''
     @ ''    <str name="zkACLProvider">${zkACLProvider:org.apache.solr.common.cloud.DefaultZkACLProvider}</str>\<newline>''
     @ ''  </solrcloud>\<newline>''
     @ ''  <shardHandlerFactory name="shardHandlerFactory"\<newline>''
     @ ''    class="HttpShardHandlerFactory">\<newline>''
     @ ''    <int name="socketTimeout">${socketTimeout:600000}</int>\<newline>''
     @ ''    <int name="connTimeout">${connTimeout:60000}</int>\<newline>''
     @ ''  </shardHandlerFactory>\<newline>''
     @ ''  ''\<close>

definition DefaultSolrXMLAfter :: string where
  \<open>DefaultSolrXMLAfter =
     ''\<newline>''
     @ ''</solr>\<newline>''\<close>

definition GenerateSolrXMLString :: "string \<Rightarrow> string" where
  "GenerateSolrXMLString backupSection = DefaultSolrXMLBefore @ backupSection @ DefaultSolrXMLAfter"

definition GenerateConfigMap :: "api \<Rightarrow> (string set \<Rightarrow> string list) \<Rightarrow> SolrCloud \<Rightarrow> ConfigMap" where
  "GenerateConfigMap api rangeOrder solrCloud =
     (let labels = SharedLabelsWith api solrCloud (cloudLabels solrCloud);
          annotations = Map.empty;
          customOptions = customConfigMapOptions (specCustomSolrKubeOptions (cloudSpec solrCloud));
          (labels, annotations) =
            (case customOptions of
               Some opts \<Rightarrow>
                 (MergeLabelsOrAnnotations api labels (optLabels opts),
                  MergeLabelsOrAnnotations api annotations (optAnnotations opts))
             | None \<Rightarrow> (labels, annotations));
          backupSection =
            GenerateBackupRepositoriesForSolrXml api rangeOrder
              (specBackupRepositories (cloudSpec solrCloud))
      in \<lparr>cmMeta =
            \<lparr>metaName = ConfigMapName api solrCloud, metaNamespace = cloudNamespace solrCloud,
             metaLabels = labels, metaAnnotations = annotations\<rparr>,
          cmData = [''solr.xml'' \<mapsto> GenerateSolrXMLString backupSection]\<rparr>)"

subsection \<open>Services\<close>






subsection \<open>Ingress\<close>

definition CreateCommonIngressRule :: "api \<Rightarrow> SolrCloud \<Rightarrow> string \<Rightarrow> IngressRule" where
  "CreateCommonIngressRule api solrCloud domainName =
     \<lparr>ruleHost = ExternalCommonUrl api solrCloud domainName False,
      rulePaths =
        [\<lparr>pathBackendServiceName = CommonServiceName api solrCloud,
          pathBackendServicePort =
            int32 (addrCommonServicePort (specSolrAddressability (cloudSpec solrCloud))),
          pathType = ''ImplementationSpecific''\<rparr>]\<rparr>"

definition CreateNodeIngressRule :: "api \<Rightarrow> SolrCloud \<Rightarrow> string \<Rightarrow> string \<Rightarrow> IngressRule" where
  "CreateNodeIngressRule api solrCloud nodeName domainName =
     \<lparr>ruleHost = ExternalNodeUrl api solrCloud nodeName domainName False,
      rulePaths =
        [\<lparr>pathBackendServiceName = nodeName,
          pathBackendServicePort = int32 (NodePort api solrCloud),
          pathType = ''ImplementationSpecific''\<rparr>]\<rparr>"

text \<open>
  \<^verbatim>\<open>CreateSolrIngressRules\<close>. Each loop appends one rule and its host to the two result
  slices. The function dereferences \<^verbatim>\<open>SolrAddressability.External\<close>: on a nil pointer it
  panics, which is \<^term>\<open>None\<close>.
\<close>

definition appendRule :: "IngressRule list \<times> string list \<Rightarrow> IngressRule \<Rightarrow> IngressRule list \<times> string list" where
  "appendRule acc rule = (fst acc @ [rule], snd acc @ [ruleHost rule])"

definition CreateSolrIngressRules ::
  "api \<Rightarrow> SolrCloud \<Rightarrow> string list \<Rightarrow> string list \<Rightarrow> (IngressRule list \<times> string list) option" where
  "CreateSolrIngressRules api solrCloud nodeNames domainNames =
     (case addrExternal (specSolrAddressability (cloudSpec solrCloud)) of
        None \<Rightarrow> None
      | Some external \<Rightarrow>
          let acc = ([], []);
              acc =
                (if \<not> extHideCommon external
                 then foldl (\<lambda>acc domainName.
                        appendRule acc (CreateCommonIngressRule api solrCloud domainName))
                      acc domainNames
                 else acc);
              acc =
                (if \<not> extHideNodes external
                 then foldl (\<lambda>acc nodeName.
                        foldl (\<lambda>acc domainName.
                          appendRule acc (CreateNodeIngressRule api solrCloud nodeName domainName))
                        acc domainNames)
                      acc nodeNames
                 else acc)
          in Some acc)"


subsection \<open>ZooKeeper connection and the setup containers\<close>

text \<open>\<^verbatim>\<open>createZkConnectionEnvVars\<close> (lines 1045-1072); \<open>ZkACLEnvVars\<close> stands for
  \<^verbatim>\<open>AddACLsToEnv(solrCloud.Spec.ZookeeperRef.GetACLs())\<close>.\<close>

definition plainEnvVar :: "string \<Rightarrow> string \<Rightarrow> EnvVar" where
  "plainEnvVar name val = \<lparr>envName = name, envValue = val, envValueFrom = None\<rparr>"

definition createZkConnectionEnvVars ::
  "api \<Rightarrow> SolrCloud \<Rightarrow> SolrCloudStatus \<Rightarrow> EnvVar list \<times> string \<times> bool" where
  "createZkConnectionEnvVars api solrCloud solrCloudStatus =
     (case DissectZkInfo api solrCloudStatus of
        (zkConnectionStr, zkServer, zkChroot) \<Rightarrow>
          let envVars =
                [plainEnvVar ''ZK_HOST'' zkConnectionStr,
                 plainEnvVar ''ZK_CHROOT'' zkChroot,
                 plainEnvVar ''ZK_SERVER'' zkServer];
              (hasACLs, aclEnvs) = ZkACLEnvVars api solrCloud;
              (envVars, solrOpt) =
                (if hasACLs then (envVars @ aclEnvs, ''$(SOLR_ZK_CREDS_AND_ACLS)'')
                 else (envVars, ''''))
          in (envVars, solrOpt, length zkChroot > 1))"

definition emptyContainer :: Container where
  "emptyContainer =
     \<lparr>containerName = '''', containerImage = '''', containerImagePullPolicy = '''',
      containerCommand = [], containerPorts = [], containerLivenessProbe = None,
      containerReadinessProbe = None, containerStartupProbe = None, containerVolumeMounts = [],
      containerEnv = [], containerLifecycle = None,
      containerResources = \<lparr>resLimits = None, resRequests = None\<rparr>,
      containerTerminationMessagePath = '''', containerTerminationMessagePolicy = ''''\<rparr>"

definition chrootCommand :: string where
  "chrootCommand =
     ''solr zk ls ${ZK_CHROOT} -z ${ZK_SERVER} || solr zk mkroot ${ZK_CHROOT} -z ${ZK_SERVER}''"

text \<open>\<^verbatim>\<open>generateZKInteractionInitContainer\<close> (lines 990-1043).\<close>

definition generateZKInteractionInitContainer ::
  "api \<Rightarrow> SolrCloud \<Rightarrow> SolrCloudStatus \<Rightarrow> labels \<Rightarrow> bool \<times> Container" where
  \<open>generateZKInteractionInitContainer api solrCloud solrCloudStatus reconcileConfigInfo =
     (case createZkConnectionEnvVars api solrCloud solrCloudStatus of
        (envVars, zkSolrOpt, _) \<Rightarrow>
          let allSolrOpts = [];
              allSolrOpts = (if zkSolrOpt \<noteq> '''' then allSolrOpts @ [zkSolrOpt] else allSolrOpts);
              allSolrOpts =
                (if specSolrOpts (cloudSpec solrCloud) \<noteq> ''''
                 then allSolrOpts @ [specSolrOpts (cloudSpec solrCloud)] else allSolrOpts);
              envVars =
                (if length allSolrOpts > 0
                 then envVars @ [plainEnvVar ''SOLR_OPTS'' (Join allSolrOpts '' '')]
                 else envVars);
              cmd = '''';
              cmd =
                (if specSolrTLS (cloudSpec solrCloud) \<noteq> None
                 then setUrlSchemeClusterPropCmd api else cmd);
              (envVars, cmd) =
                (if lookupString reconcileConfigInfo SecurityJsonFile \<noteq> ''''
                 then
                   (envVars @
                      [\<lparr>envName = ''SECURITY_JSON'', envValue = '''',
                        envValueFrom =
                          Some (SecretKeyRef (SecurityBootstrapSecretName api solrCloud) SecurityJsonFile)\<rparr>],
                    (if cmd = '''' then cmd @ chrootCommand @ ''; '' else cmd)
                    @ ''ZK_SECURITY_JSON=$(/opt/solr/server/scripts/cloud-scripts/zkcli.sh -zkhost ${ZK_HOST} -cmd get /security.json); ''
                    @ ''if [ ${#ZK_SECURITY_JSON} -lt 3 ]; then echo $SECURITY_JSON > /tmp/security.json; /opt/solr/server/scripts/cloud-scripts/zkcli.sh -zkhost ${ZK_HOST} -cmd putfile /security.json /tmp/security.json; echo "put security.json in ZK"; fi'')
                 else (envVars, cmd))
          in if cmd \<noteq> ''''
             then (True,
                   emptyContainer
                     \<lparr>containerName := ''setup-zk'',
                      containerImage := ToImageName api (specSolrImage (cloudSpec solrCloud)),
                      containerImagePullPolicy := imagePullPolicy (specSolrImage (cloudSpec solrCloud)),
                      containerTerminationMessagePath := ''/dev/termination-log'',
                      containerTerminationMessagePolicy := ''File'',
                      containerCommand := [''sh'', ''-c'', cmd],
                      containerEnv := envVars\<rparr>)
             else (False, emptyContainer))\<close>

text \<open>The loop of \<^verbatim>\<open>generateSolrSetupInitContainers\<close> over the backup repositories
  (lines 585-596). A managed repository without a mount is a nil dereference.\<close>

fun managedRepoSetup ::
  "api \<Rightarrow> string \<Rightarrow> SolrBackupRepository list \<Rightarrow> VolumeMount list \<times> string list
     \<Rightarrow> (VolumeMount list \<times> string list) option" where
  "managedRepoSetup api name [] acc = Some acc"
| "managedRepoSetup api name (repo # repos) (volumeMounts, setupCommands) =
     (if IsRepoManaged api repo
      then (case snd (RepoVolumeSourceAndMount api repo name) of
              None \<Rightarrow> None
            | Some volumeMount \<Rightarrow>
                managedRepoSetup api name repos
                  (volumeMounts @ [volumeMount],
                   setupCommands @
                     [''chown -R '' @ Itoa DefaultSolrUser @ '':'' @ Itoa DefaultSolrGroup @ '' ''
                      @ mountPath volumeMount]))
      else managedRepoSetup api name repos (volumeMounts, setupCommands))"

definition plainMount :: "string \<Rightarrow> string \<Rightarrow> VolumeMount" where
  "plainMount name path =
     \<lparr>mountName = name, mountPath = path, mountSubPath = '''', mountReadOnly = False\<rparr>"

text \<open>\<^verbatim>\<open>generateSolrSetupInitContainers\<close> (lines 569-613).\<close>

definition generateSolrSetupInitContainers ::
  "api \<Rightarrow> SolrCloud \<Rightarrow> SolrCloudStatus \<Rightarrow> string \<Rightarrow> labels \<Rightarrow> Container list option" where
  "generateSolrSetupInitContainers api solrCloud solrCloudStatus solrDataVolumeName reconcileConfigInfo =
     (case managedRepoSetup api (cloudName solrCloud) (specBackupRepositories (cloudSpec solrCloud))
             ([plainMount ''solr-xml'' ''/tmp'', plainMount solrDataVolumeName ''/tmp-config''],
              [''cp /tmp/solr.xml /tmp-config/solr.xml'']) of
        None \<Rightarrow> None
      | Some (volumeMounts, setupCommands) \<Rightarrow>
          let volumePrepInitContainer =
                emptyContainer
                  \<lparr>containerName := ''cp-solr-xml'',
                   containerImage := ToImageName api (specBusyBoxImage (cloudSpec solrCloud)),
                   containerImagePullPolicy := imagePullPolicy (specBusyBoxImage (cloudSpec solrCloud)),
                   containerCommand := [''sh'', ''-c'', Join setupCommands '' && ''],
                   containerVolumeMounts := volumeMounts\<rparr>;
              containers = [volumePrepInitContainer];
              (hasZKSetupContainer, zkSetupContainer) =
                generateZKInteractionInitContainer api solrCloud solrCloudStatus reconcileConfigInfo
          in Some (if hasZKSetupContainer then containers @ [zkSetupContainer] else containers))"

subsection \<open>User-provided log configuration\<close>

text \<open>
  The loop of \<^verbatim>\<open>setupVolumeMountForUserProvidedConfigMapEntry\<close> (lines 1080-1087): the
  first volume named \<^verbatim>\<open>solr-xml\<close> gets the item appended, through its ConfigMap pointer,
  so the caller's volume list sees it. The result is the list after the loop and whether an
  item was appended; a volume of that name without a ConfigMap source is a nil dereference.
\<close>

fun appendToSolrXmlVolume :: "string \<Rightarrow> Volume list \<Rightarrow> (Volume list \<times> bool) option" where
  "appendToSolrXmlVolume fileKey [] = Some ([], False)"
| "appendToSolrXmlVolume fileKey (vol # vols) =
     (if volName vol = ''solr-xml''
      then (case vsConfigMap (volSource vol) of
              None \<Rightarrow> None
            | Some cm \<Rightarrow>
                Some (vol\<lparr>volSource := (volSource vol)
                            \<lparr>vsConfigMap := Some (cm\<lparr>configMapItems := configMapItems cm @
                               [\<lparr>itemKey = fileKey, itemPath = fileKey\<rparr>]\<rparr>)\<rparr>\<rparr> # vols,
                      True))
      else (case appendToSolrXmlVolume fileKey vols of
              None \<Rightarrow> None
            | Some (vols', appended) \<Rightarrow> Some (vol # vols', appended)))"

text \<open>\<^verbatim>\<open>setupVolumeMountForUserProvidedConfigMapEntry\<close> (lines 1074-1106): the volume list
  after the call, the mount, the environment variable and the new volume, if any.\<close>

definition setupVolumeMountForUserProvidedConfigMapEntry ::
  "api \<Rightarrow> labels \<Rightarrow> string \<Rightarrow> Volume list \<Rightarrow> string
     \<Rightarrow> (Volume list \<times> VolumeMount \<times> EnvVar \<times> Volume option) option" where
  "setupVolumeMountForUserProvidedConfigMapEntry api reconcileConfigInfo fileKey solrVolumes envVar =
     (let volName = ReplaceAllDotDash fileKey;
          mountPath = ''/var/solr/'' @ lookupString reconcileConfigInfo fileKey
      in case (if lookupString reconcileConfigInfo fileKey = lookupString reconcileConfigInfo SolrXmlFile
               then appendToSolrXmlVolume fileKey solrVolumes
               else Some (solrVolumes, False)) of
           None \<Rightarrow> None
         | Some (solrVolumes, appendedToExisting) \<Rightarrow>
             let volName = (if appendedToExisting then ''solr-xml'' else volName);
                 vol =
                   (if \<not> appendedToExisting
                    then Some
                      \<lparr>volName = volName,
                       volSource = emptyVolumeSource
                         \<lparr>vsConfigMap := Some
                            \<lparr>configMapRefName = lookupString reconcileConfigInfo fileKey,
                             configMapItems = [\<lparr>itemKey = fileKey, itemPath = fileKey\<rparr>],
                             configMapDefaultMode = Some (PublicReadOnlyPermissions api)\<rparr>\<rparr>\<rparr>
                    else None);
                 pathToFile = mountPath @ ''/'' @ fileKey
             in Some (solrVolumes, plainMount volName mountPath, plainEnvVar envVar pathToFile, vol))"

subsection \<open>The probe command\<close>

text \<open>\<^verbatim>\<open>configureSecureProbeCommand\<close> (lines 1321-1363): the command, and the volume and
  mount of the basic-auth secret when the probes need credentials.\<close>

definition configureSecureProbeCommand ::
  "api \<Rightarrow> SolrCloud \<Rightarrow> HTTPGetAction \<Rightarrow> string \<times> Volume option \<times> VolumeMount option" where
  \<open>configureSecureProbeCommand api solrCloud defaultProbeGetAction =
     (let (basicAuthOption, enableBasicAuth, vol, volMount) =
            (if (case specSolrSecurity (cloudSpec solrCloud) of
                   Some security \<Rightarrow> securityProbesRequireAuth security | None \<Rightarrow> False)
             then
               let secretName = BasicAuthSecretName api solrCloud;
                   vol =
                     \<lparr>volName = ReplaceAllDotDash secretName,
                      volSource = emptyVolumeSource
                        \<lparr>vsSecret := Some
                           \<lparr>secretRefName = secretName,
                            secretDefaultMode = Some (SecretReadOnlyPermissions api)\<rparr>\<rparr>\<rparr>;
                   mountPath = ''/etc/secrets/'' @ volName vol;
                   volMount = plainMount (volName vol) mountPath;
                   usernameFile = mountPath @ ''/'' @ BasicAuthUsernameKey;
                   passwordFile = mountPath @ ''/'' @ BasicAuthPasswordKey
               in (''-Dbasicauth=$(cat '' @ usernameFile @ ''):$(cat '' @ passwordFile @ '')'',
                   '' -Dsolr.httpclient.builder.factory=org.apache.solr.client.solrj.impl.PreemptiveBasicAuthClientBuilderFactory '',
                   Some vol, Some volMount)
             else ('''', '''', None, None));
          (tlsJavaToolOpts, tlsJavaSysProps) = secureProbeTLSJavaToolOpts api solrCloud;
          javaToolOptions = TrimSpace (basicAuthOption @ '' '' @ tlsJavaToolOpts);
          probeCommand =
            ''JAVA_TOOL_OPTIONS="'' @ javaToolOptions @ ''" java '' @ tlsJavaSysProps @ '' ''
            @ enableBasicAuth @ '' ''
            @ ''-Dsolr.install.dir="/opt/solr" -Dlog4j.configurationFile="/opt/solr/server/resources/log4j2-console.xml" ''
            @ ''-classpath "/opt/solr/server/solr-webapp/webapp/WEB-INF/lib/*:/opt/solr/server/lib/ext/*:/opt/solr/server/lib/*" ''
            @ ''org.apache.solr.util.SolrCLI api -get '' @ UrlScheme api solrCloud False
            @ ''://localhost:'' @ Itoa (httpPort defaultProbeGetAction) @ httpPath defaultProbeGetAction;
          probeCommand = collapseSpaces (TrimSpace probeCommand)
      in (probeCommand, vol, volMount))\<close>

subsection \<open>The StatefulSet\<close>

text \<open>
  \<^verbatim>\<open>GenerateStatefulSet\<close> (lines 71-567) is embedded block by block; each definition
  names the lines it follows. \<^term>\<open>None\<close> is a panic on a nil pointer.
\<close>

text \<open>Lines 149-184: the claim template of persistent storage.\<close>

definition persistentVolumeClaims ::
  "api \<Rightarrow> SolrCloud \<Rightarrow> string \<Rightarrow> PersistentVolumeClaim \<Rightarrow> PersistentVolumeClaim list" where
  "persistentVolumeClaims api solrCloud solrDataVolumeName pvc =
     (let pvc = (if pvcName pvc = '''' then pvc\<lparr>pvcName := solrDataVolumeName\<rparr> else pvc);
          pvc =
            (if length (pvcAccessModes (pvcSpec pvc)) = 0
             then pvc\<lparr>pvcSpec := (pvcSpec pvc)\<lparr>pvcAccessModes := [''ReadWriteOnce'']\<rparr>\<rparr>
             else pvc);
          pvc =
            (if pvcVolumeMode (pvcSpec pvc) = None
             then pvc\<lparr>pvcSpec := (pvcSpec pvc)\<lparr>pvcVolumeMode := Some ''Filesystem''\<rparr>\<rparr>
             else pvc);
          internalLabels =
            [SolrPVCTechnologyLabel \<mapsto> SolrCloudPVCTechnology,
             SolrPVCStorageLabel \<mapsto> SolrCloudPVCDataStorage,
             SolrPVCInstanceLabel \<mapsto> cloudName solrCloud];
          pvc = pvc\<lparr>pvcLabels := MergeLabelsOrAnnotations api internalLabels (pvcLabels pvc)\<rparr>
      in [\<lparr>pvcName = pvcName pvc, pvcLabels = pvcLabels pvc, pvcAnnotations = pvcAnnotations pvc,
           pvcSpec = pvcSpec pvc\<rparr>])"

text \<open>Lines 186-200: the data volume of ephemeral storage.\<close>

definition ephemeralVolume :: "SolrCloud \<Rightarrow> string \<Rightarrow> Volume" where
  "ephemeralVolume solrCloud solrDataVolumeName =
     (let ephemeralVolume = \<lparr>volName = solrDataVolumeName, volSource = emptyVolumeSource\<rparr>
      in case storageEphemeral (specStorageOptions (cloudSpec solrCloud)) of
           Some ephemeralStorage \<Rightarrow>
             if ephemeralHostPath ephemeralStorage \<noteq> None
             then ephemeralVolume
                    \<lparr>volSource := (volSource ephemeralVolume)
                       \<lparr>vsHostPath := ephemeralHostPath ephemeralStorage\<rparr>\<rparr>
             else if ephemeralEmptyDir ephemeralStorage \<noteq> None
             then ephemeralVolume
                    \<lparr>volSource := (volSource ephemeralVolume)
                       \<lparr>vsEmptyDir := ephemeralEmptyDir ephemeralStorage\<rparr>\<rparr>
             else ephemeralVolume
                    \<lparr>volSource := (volSource ephemeralVolume)
                       \<lparr>vsEmptyDir := Some \<lparr>emptyDirMedium = '''', emptyDirSizeLimit = None\<rparr>\<rparr>\<rparr>
         | None \<Rightarrow>
             ephemeralVolume
               \<lparr>volSource := (volSource ephemeralVolume)
                  \<lparr>vsEmptyDir := Some \<lparr>emptyDirMedium = '''', emptyDirSizeLimit = None\<rparr>\<rparr>\<rparr>)"

text \<open>Lines 205-215: volumes and mounts of the backup repositories.\<close>

fun backupRepoVolumes ::
  "api \<Rightarrow> string \<Rightarrow> SolrBackupRepository list \<Rightarrow> Volume list \<times> VolumeMount list
     \<Rightarrow> (Volume list \<times> VolumeMount list) option" where
  "backupRepoVolumes api name [] acc = Some acc"
| "backupRepoVolumes api name (repo # repos) (solrVolumes, volumeMounts) =
     (case RepoVolumeSourceAndMount api repo name of
        (None, _) \<Rightarrow> backupRepoVolumes api name repos (solrVolumes, volumeMounts)
      | (Some volumeSource, None) \<Rightarrow> None
      | (Some volumeSource, Some mount) \<Rightarrow>
          backupRepoVolumes api name repos
            (solrVolumes @ [\<lparr>volName = RepoVolumeName api repo, volSource = volumeSource\<rparr>],
             volumeMounts @ [mount\<lparr>mountName := RepoVolumeName api repo\<rparr>]))"

text \<open>Lines 219-230: the custom volumes of the pod options.\<close>

definition customVolumes ::
  "AdditionalVolume list \<Rightarrow> Volume list \<times> VolumeMount list \<Rightarrow> Volume list \<times> VolumeMount list" where
  "customVolumes volumes acc =
     foldl (\<lambda>(solrVolumes, volumeMounts) volume.
        (solrVolumes @ [\<lparr>volName = addVolName volume, volSource = addVolSource volume\<rparr>],
         (case addVolDefaultContainerMount volume of
            Some mount \<Rightarrow> volumeMounts @ [mount\<lparr>mountName := addVolName volume\<rparr>]
          | None \<Rightarrow> volumeMounts)))
       acc volumes"

text \<open>
  Lines 233-254: the host aliases. The Go map \<^verbatim>\<open>hostNameIPs\<close> is an association list
  with distinct keys, in the order in which this call's \<^verbatim>\<open>range\<close> visits them.
\<close>

definition hostAliasesOf :: "(string \<times> string) list \<Rightarrow> HostAlias list" where
  "hostAliasesOf hostNameIPs =
     (if length hostNameIPs = 0 then []
      else
        let hostNames = map fst hostNameIPs;
            hostNames = sort hostNames
        in map (\<lambda>hostName.
                 \<lparr>aliasIP = lookupString (map_of hostNameIPs) hostName,
                  aliasHostnames = [hostName]\<rparr>)
             hostNames)"

text \<open>Lines 76-88 and 360-371: the handler and the timeout of the probes, with the volume
  and mount that the probe command needs.\<close>

definition defaultHTTPGet :: "SolrCloud \<Rightarrow> TLSCerts option \<Rightarrow> HTTPGetAction" where
  "defaultHTTPGet solrCloud tls =
     \<lparr>httpScheme = (if tls \<noteq> None then URISchemeHTTPS else URISchemeHTTP),
      httpPath = ''/solr'' @ DefaultProbePath,
      httpPort = int32 (addrPodPort (specSolrAddressability (cloudSpec solrCloud)))\<rparr>"

definition emptyHandler :: Handler where
  "emptyHandler = \<lparr>handlerExec = None, handlerHTTPGet = None, handlerTCPSocket = None\<rparr>"

definition probesNeedCommand :: "SolrCloud \<Rightarrow> TLSCerts option \<Rightarrow> bool" where
  "probesNeedCommand solrCloud tls \<longleftrightarrow>
     (case tls of
        Some t \<Rightarrow>
          (case tlsServerConfig t of
             Some serverConfig \<Rightarrow> tlsClientAuth serverConfig \<noteq> ClientAuthNone
           | None \<Rightarrow> False)
      | None \<Rightarrow> False)
     \<or> (case specSolrSecurity (cloudSpec solrCloud) of
          Some security \<Rightarrow> securityProbesRequireAuth security
        | None \<Rightarrow> False)"

definition defaultProbeHandler ::
  "api \<Rightarrow> SolrCloud \<Rightarrow> TLSCerts option \<Rightarrow> Handler \<times> int \<times> Volume option \<times> VolumeMount option" where
  "defaultProbeHandler api solrCloud tls =
     (let defaultProbeTimeout = 1;
          defaultHandler = emptyHandler\<lparr>handlerHTTPGet := Some (defaultHTTPGet solrCloud tls)\<rparr>
      in if probesNeedCommand solrCloud tls
         then (case configureSecureProbeCommand api solrCloud (defaultHTTPGet solrCloud tls) of
                 (probeCommand, vol, volMount) \<Rightarrow>
                   (emptyHandler\<lparr>handlerExec := Some [''sh'', ''-c'', probeCommand]\<rparr>, 5, vol, volMount))
         else (defaultHandler, defaultProbeTimeout, None, None))"

text \<open>Lines 72, 114-116 and 259-263.\<close>

definition terminationGracePeriodOf :: "SolrCloud \<Rightarrow> int" where
  "terminationGracePeriodOf solrCloud =
     (case customPodOptions (specCustomSolrKubeOptions (cloudSpec solrCloud)) of
        Some opts \<Rightarrow>
          (case podOptTerminationGracePeriodSeconds opts of Some t \<Rightarrow> t | None \<Rightarrow> 60)
      | None \<Rightarrow> 60)"

text \<open>Lines 265-317, 336-339 and 382-390: the environment of the Solr container; \<open>logEnv\<close>
  is the variable of a user-provided log configuration (line 354).\<close>

definition solrEnvVars ::
  "api \<Rightarrow> SolrCloud \<Rightarrow> SolrCloudStatus \<Rightarrow> EnvVar list \<Rightarrow> EnvVar list" where
  "solrEnvVars api solrCloud solrCloudStatus logEnv =
     (let solrPodPort = addrPodPort (specSolrAddressability (cloudSpec solrCloud));
          allSolrOpts = [''-DhostPort=$(SOLR_NODE_PORT)''];
          solrHostName = AdvertisedNodeHost api solrCloud ''$(POD_HOSTNAME)'';
          solrAdressingPort = NodePort api solrCloud;
          solrStopWait = terminationGracePeriodOf solrCloud - 5;
          solrStopWait = (if solrStopWait < 0 then 0 else solrStopWait);
          envVars =
            [plainEnvVar ''SOLR_JAVA_MEM'' (specSolrJavaMem (cloudSpec solrCloud)),
             plainEnvVar ''SOLR_HOME'' ''/var/solr/data'',
             plainEnvVar ''SOLR_PORT'' (Itoa solrPodPort),
             plainEnvVar ''SOLR_NODE_PORT'' (Itoa solrAdressingPort),
             \<lparr>envName = ''POD_HOSTNAME'', envValue = '''',
              envValueFrom = Some (FieldRef ''metadata.name'' ''v1'')\<rparr>,
             plainEnvVar ''SOLR_HOST'' solrHostName,
             plainEnvVar ''SOLR_LOG_LEVEL'' (specSolrLogLevel (cloudSpec solrCloud)),
             plainEnvVar ''GC_TUNE'' (specSolrGCTune (cloudSpec solrCloud)),
             plainEnvVar ''SOLR_STOP_WAIT'' (Itoa solrStopWait)]
      in case createZkConnectionEnvVars api solrCloud solrCloudStatus of
           (zkEnvVars, zkSolrOpt, hasChroot) \<Rightarrow>
             let allSolrOpts = (if zkSolrOpt \<noteq> '''' then allSolrOpts @ [zkSolrOpt] else allSolrOpts);
                 envVars = envVars @ zkEnvVars;
                 envVars =
                   (case customPodOptions (specCustomSolrKubeOptions (cloudSpec solrCloud)) of
                      Some opts \<Rightarrow> envVars @ podOptEnvVariables opts
                    | None \<Rightarrow> envVars);
                 envVars = envVars @ logEnv;
                 allSolrOpts =
                   (if specSolrOpts (cloudSpec solrCloud) \<noteq> ''''
                    then allSolrOpts @ [specSolrOpts (cloudSpec solrCloud)] else allSolrOpts)
             in envVars @ [plainEnvVar ''SOLR_OPTS'' (Join allSolrOpts '' '')])"

text \<open>Lines 319-334: the lifecycle hooks of the Solr container.\<close>

definition solrLifecycle :: "api \<Rightarrow> SolrCloud \<Rightarrow> SolrCloudStatus \<Rightarrow> Lifecycle" where
  "solrLifecycle api solrCloud solrCloudStatus =
     (case createZkConnectionEnvVars api solrCloud solrCloudStatus of
        (zkEnvVars, zkSolrOpt, hasChroot) \<Rightarrow>
          let postStart =
                (if hasChroot
                 then Some (emptyHandler\<lparr>handlerExec := Some [''sh'', ''-c'', chrootCommand]\<rparr>)
                 else None);
              preStop =
                Some (emptyHandler
                  \<lparr>handlerExec := Some
                     [''solr'', ''stop'', ''-p'',
                      Itoa (addrPodPort (specSolrAddressability (cloudSpec solrCloud)))]\<rparr>)
          in \<lparr>lifecyclePostStart = postStart, lifecyclePreStop = preStop\<rparr>)"

text \<open>Lines 109-113, 341-349 and 373-380: the annotations of the pod template.\<close>

definition podAnnotationsOf :: "SolrCloud \<Rightarrow> labels \<Rightarrow> labels" where
  "podAnnotationsOf solrCloud reconcileConfigInfo =
     (let podAnnotations =
            (case customPodOptions (specCustomSolrKubeOptions (cloudSpec solrCloud)) of
               Some opts \<Rightarrow> podOptAnnotations opts
             | None \<Rightarrow> Map.empty);
          podAnnotations =
            (if lookupString reconcileConfigInfo LogXmlFile \<noteq> ''''
                \<and> lookupString reconcileConfigInfo LogXmlMd5Annotation \<noteq> ''''
             then podAnnotations(LogXmlMd5Annotation \<mapsto> lookupString reconcileConfigInfo LogXmlMd5Annotation)
             else podAnnotations)
      in if lookupString reconcileConfigInfo SolrXmlMd5Annotation \<noteq> ''''
         then podAnnotations(SolrXmlMd5Annotation \<mapsto> lookupString reconcileConfigInfo SolrXmlMd5Annotation)
         else podAnnotations)"

text \<open>Lines 90-106 and 108-112: labels and annotations of the StatefulSet and labels of its
  pods.\<close>

definition statefulSetBaseLabels :: "api \<Rightarrow> SolrCloud \<Rightarrow> labels" where
  "statefulSetBaseLabels api solrCloud =
     (SharedLabelsWith api solrCloud (cloudLabels solrCloud))(''technology'' \<mapsto> SolrTechnologyLabel api)"

definition statefulSetLabels :: "api \<Rightarrow> SolrCloud \<Rightarrow> labels" where
  "statefulSetLabels api solrCloud =
     (let labels = statefulSetBaseLabels api solrCloud
      in case customStatefulSetOptions (specCustomSolrKubeOptions (cloudSpec solrCloud)) of
           Some ssOptions \<Rightarrow> MergeLabelsOrAnnotations api labels (ssOptLabels ssOptions)
         | None \<Rightarrow> labels)"

definition statefulSetAnnotations :: "api \<Rightarrow> SolrCloud \<Rightarrow> SolrCloudStatus \<Rightarrow> labels" where
  "statefulSetAnnotations api solrCloud solrCloudStatus =
     (let annotations = [SolrZKConnectionStringAnnotation \<mapsto> ZkConnectionString api solrCloudStatus]
      in case customStatefulSetOptions (specCustomSolrKubeOptions (cloudSpec solrCloud)) of
           Some ssOptions \<Rightarrow>
             MergeLabelsOrAnnotations api annotations (ssOptAnnotations ssOptions)
         | None \<Rightarrow> annotations)"

definition statefulSetPodLabels :: "api \<Rightarrow> SolrCloud \<Rightarrow> labels" where
  "statefulSetPodLabels api solrCloud =
     (let podLabels = statefulSetBaseLabels api solrCloud
      in case customPodOptions (specCustomSolrKubeOptions (cloudSpec solrCloud)) of
           Some podOptions \<Rightarrow> MergeLabelsOrAnnotations api podLabels (podOptLabels podOptions)
         | None \<Rightarrow> podLabels)"

definition optionToList :: "'a option \<Rightarrow> 'a list" where
  "optionToList x = (case x of Some v \<Rightarrow> [v] | None \<Rightarrow> [])"

text \<open>Lines 123-142: the volume of solr.xml.\<close>

definition solrXmlVolume :: "api \<Rightarrow> labels \<Rightarrow> Volume" where
  "solrXmlVolume api reconcileConfigInfo =
     \<lparr>volName = ''solr-xml'',
      volSource = emptyVolumeSource
        \<lparr>vsConfigMap := Some
           \<lparr>configMapRefName = lookupString reconcileConfigInfo SolrXmlFile,
            configMapItems = [\<lparr>itemKey = SolrXmlFile, itemPath = SolrXmlFile\<rparr>],
            configMapDefaultMode = Some (PublicReadOnlyPermissions api)\<rparr>\<rparr>\<rparr>"

text \<open>Lines 147-202: persistent storage gives a claim template, ephemeral storage a data
  volume after the volumes so far.\<close>

definition dataStorage ::
  "api \<Rightarrow> SolrCloud \<Rightarrow> string \<Rightarrow> Volume list \<Rightarrow> (PersistentVolumeClaim list \<times> Volume list) option" where
  "dataStorage api solrCloud solrDataVolumeName solrVolumes =
     (if UsesPersistentStorage api solrCloud
      then (case storagePersistentPVCTemplate (specStorageOptions (cloudSpec solrCloud)) of
              None \<Rightarrow> None
            | Some pvc \<Rightarrow>
                Some (persistentVolumeClaims api solrCloud solrDataVolumeName pvc, solrVolumes))
      else Some ([], solrVolumes @ [ephemeralVolume solrCloud solrDataVolumeName]))"

text \<open>Lines 217-231.\<close>

definition podOptionVolumes ::
  "SolrCloud \<Rightarrow> Volume list \<times> VolumeMount list \<Rightarrow> Volume list \<times> VolumeMount list" where
  "podOptionVolumes solrCloud acc =
     (case customPodOptions (specCustomSolrKubeOptions (cloudSpec solrCloud)) of
        Some podOptions \<Rightarrow> customVolumes (podOptVolumes podOptions) acc
      | None \<Rightarrow> acc)"

text \<open>Lines 341-358: the volume, the mount and the environment variable of a user-provided
  log configuration.\<close>

definition logConfigVolumes ::
  "api \<Rightarrow> labels \<Rightarrow> Volume list \<times> VolumeMount list
     \<Rightarrow> (Volume list \<times> VolumeMount list \<times> EnvVar list) option" where
  "logConfigVolumes api reconcileConfigInfo acc =
     (if lookupString reconcileConfigInfo LogXmlFile \<noteq> ''''
      then (case setupVolumeMountForUserProvidedConfigMapEntry api reconcileConfigInfo LogXmlFile
                   (fst acc) ''LOG4J_PROPS'' of
              None \<Rightarrow> None
            | Some (solrVolumes, volMount, envVar, newVolume) \<Rightarrow>
                Some (solrVolumes @ optionToList newVolume, snd acc @ [volMount], [envVar]))
      else Some (fst acc, snd acc, []))"

text \<open>Lines 123-231, 341-358 and 361-367: the volumes of the pod, the mounts of the Solr
  container, the claim templates, and the environment variable of a user-provided log
  configuration.\<close>

definition solrVolumesAndMounts ::
  "api \<Rightarrow> SolrCloud \<Rightarrow> labels \<Rightarrow> TLSCerts option
     \<Rightarrow> (Volume list \<times> VolumeMount list \<times> PersistentVolumeClaim list \<times> EnvVar list) option" where
  "solrVolumesAndMounts api solrCloud reconcileConfigInfo tls =
     (case dataStorage api solrCloud ''data'' [solrXmlVolume api reconcileConfigInfo] of
        None \<Rightarrow> None
      | Some (pvcs, solrVolumes) \<Rightarrow>
         (case backupRepoVolumes api (cloudName solrCloud)
                 (specBackupRepositories (cloudSpec solrCloud))
                 (solrVolumes, [plainMount ''data'' ''/var/solr/data'']) of
            None \<Rightarrow> None
          | Some acc \<Rightarrow>
             (case logConfigVolumes api reconcileConfigInfo (podOptionVolumes solrCloud acc) of
                None \<Rightarrow> None
              | Some (solrVolumes, volumeMounts, logEnv) \<Rightarrow>
                  Some (solrVolumes
                          @ optionToList (fst (snd (snd (defaultProbeHandler api solrCloud tls)))),
                        volumeMounts
                          @ optionToList (snd (snd (snd (defaultProbeHandler api solrCloud tls)))),
                        pvcs, logEnv))))"

text \<open>Lines 399-434 and 509-554: the Solr container, then the overrides of the pod options
  on it.\<close>

definition solrContainer ::
  "api \<Rightarrow> SolrCloud \<Rightarrow> SolrCloudStatus \<Rightarrow> TLSCerts option \<Rightarrow> VolumeMount list \<Rightarrow> EnvVar list
     \<Rightarrow> Container" where
  "solrContainer api solrCloud solrCloudStatus tls volumeMounts envVars =
     (case defaultProbeHandler api solrCloud tls of
        (defaultHandler, defaultProbeTimeout, _, _) \<Rightarrow>
          let livenessProbe =
                \<lparr>probeInitialDelaySeconds = 20, probeTimeoutSeconds = defaultProbeTimeout,
                 probeSuccessThreshold = 1, probeFailureThreshold = 3, probePeriodSeconds = 10,
                 probeHandler = defaultHandler\<rparr>;
              readinessProbe =
                \<lparr>probeInitialDelaySeconds = 15, probeTimeoutSeconds = defaultProbeTimeout,
                 probeSuccessThreshold = 1, probeFailureThreshold = 3, probePeriodSeconds = 5,
                 probeHandler = defaultHandler\<rparr>;
              container =
                emptyContainer
                  \<lparr>containerName := SolrNodeContainer,
                   containerImage := ToImageName api (specSolrImage (cloudSpec solrCloud)),
                   containerImagePullPolicy := imagePullPolicy (specSolrImage (cloudSpec solrCloud)),
                   containerPorts :=
                     [\<lparr>portContainerPort =
                         int32 (addrPodPort (specSolrAddressability (cloudSpec solrCloud))),
                       portName = SolrClientPortName, portProtocol = ''TCP''\<rparr>],
                   containerLivenessProbe := Some livenessProbe,
                   containerReadinessProbe := Some readinessProbe,
                   containerVolumeMounts := volumeMounts,
                   containerEnv := envVars,
                   containerLifecycle := Some (solrLifecycle api solrCloud solrCloudStatus)\<rparr>
          in case customPodOptions (specCustomSolrKubeOptions (cloudSpec solrCloud)) of
               None \<Rightarrow> container
             | Some podOptions \<Rightarrow>
                 let container =
                       (if resLimits (podOptResources podOptions) \<noteq> None
                           \<or> resRequests (podOptResources podOptions) \<noteq> None
                        then container\<lparr>containerResources := podOptResources podOptions\<rparr>
                        else container);
                     container =
                       (if podOptLifecycle podOptions \<noteq> None
                        then container\<lparr>containerLifecycle := podOptLifecycle podOptions\<rparr>
                        else container);
                     container =
                       (case podOptStartupProbe podOptions of
                          Some startupProbe \<Rightarrow>
                            let baseProbe = livenessProbe
                                  \<lparr>probeTimeoutSeconds := 30, probeFailureThreshold := 15\<rparr>
                            in container
                                 \<lparr>containerStartupProbe := Some (customizeProbe api baseProbe startupProbe)\<rparr>
                        | None \<Rightarrow> container);
                     container =
                       (case podOptLivenessProbe podOptions of
                          Some customProbe \<Rightarrow>
                            container
                              \<lparr>containerLivenessProbe := Some (customizeProbe api livenessProbe customProbe)\<rparr>
                        | None \<Rightarrow> container);
                     container =
                       (case podOptReadinessProbe podOptions of
                          Some customProbe \<Rightarrow>
                            container
                              \<lparr>containerReadinessProbe := Some (customizeProbe api readinessProbe customProbe)\<rparr>
                        | None \<Rightarrow> container)
                 in container)"

text \<open>Lines 454-559: the pod specification with the overrides of the pod options.\<close>

definition solrPodSpec ::
  "SolrCloud \<Rightarrow> Volume list \<Rightarrow> Container list \<Rightarrow> HostAlias list \<Rightarrow> Container list \<Rightarrow> PodSpec" where
  "solrPodSpec solrCloud solrVolumes initContainers hostAliases containers =
     (let imagePullSecrets =
            (case customPodOptions (specCustomSolrKubeOptions (cloudSpec solrCloud)) of
               Some podOptions \<Rightarrow> podOptImagePullSecrets podOptions
             | None \<Rightarrow> []);
          imagePullSecrets =
            (if imagePullSecret (specSolrImage (cloudSpec solrCloud)) \<noteq> ''''
             then imagePullSecrets @ [imagePullSecret (specSolrImage (cloudSpec solrCloud))]
             else imagePullSecrets);
          podSpec =
            \<lparr>podTerminationGracePeriodSeconds = terminationGracePeriodOf solrCloud,
             podSecurityContext = Some \<lparr>pscFSGroup = Some DefaultSolrGroup, pscOther = ''''\<rparr>,
             podVolumes = solrVolumes,
             podInitContainers = initContainers,
             podHostAliases = hostAliases,
             podContainers = containers,
             podImagePullSecrets = imagePullSecrets,
             podServiceAccountName = '''',
             podAffinity = None,
             podTolerations = None,
             podNodeSelector = None,
             podPriorityClassName = ''''\<rparr>
      in case customPodOptions (specCustomSolrKubeOptions (cloudSpec solrCloud)) of
           None \<Rightarrow> podSpec
         | Some podOptions \<Rightarrow>
             let podSpec =
                   (if podOptServiceAccountName podOptions \<noteq> ''''
                    then podSpec\<lparr>podServiceAccountName := podOptServiceAccountName podOptions\<rparr>
                    else podSpec);
                 podSpec =
                   (if podOptAffinity podOptions \<noteq> None
                    then podSpec\<lparr>podAffinity := podOptAffinity podOptions\<rparr> else podSpec);
                 podSpec =
                   (if podOptPodSecurityContext podOptions \<noteq> None
                    then podSpec\<lparr>podSecurityContext := podOptPodSecurityContext podOptions\<rparr>
                    else podSpec);
                 podSpec =
                   (if podOptTolerations podOptions \<noteq> None
                    then podSpec\<lparr>podTolerations := podOptTolerations podOptions\<rparr> else podSpec);
                 podSpec =
                   (if podOptNodeSelector podOptions \<noteq> None
                    then podSpec\<lparr>podNodeSelector := podOptNodeSelector podOptions\<rparr> else podSpec);
                 podSpec =
                   (if podOptPriorityClassName podOptions \<noteq> ''''
                    then podSpec\<lparr>podPriorityClassName := podOptPriorityClassName podOptions\<rparr>
                    else podSpec)
             in podSpec)"

text \<open>Lines 441-452: the update strategy and the pod management policy.\<close>

definition statefulSetUpdateStrategy :: "SolrCloud \<Rightarrow> StatefulSetUpdateStrategyType" where
  "statefulSetUpdateStrategy solrCloud =
     (if specUpdateStrategyMethod (cloudSpec solrCloud) = StatefulSetUpdate
      then RollingUpdateStatefulSetStrategyType else OnDeleteStatefulSetStrategyType)"

definition statefulSetPodManagementPolicy :: "SolrCloud \<Rightarrow> string" where
  "statefulSetPodManagementPolicy solrCloud =
     (case customStatefulSetOptions (specCustomSolrKubeOptions (cloudSpec solrCloud)) of
        Some opts \<Rightarrow>
          if ssOptPodManagementPolicy opts \<noteq> '''' then ssOptPodManagementPolicy opts
          else DefaultStatefulSetPodManagementPolicy
      | None \<Rightarrow> DefaultStatefulSetPodManagementPolicy)"

text \<open>Lines 394-397 and 436-439: the init containers and sidecar containers of the pod
  options follow the operator's own.\<close>

definition withCustomInitContainers :: "SolrCloud \<Rightarrow> Container list \<Rightarrow> Container list" where
  "withCustomInitContainers solrCloud initContainers =
     (case customPodOptions (specCustomSolrKubeOptions (cloudSpec solrCloud)) of
        Some opts \<Rightarrow> initContainers @ podOptInitContainers opts
      | None \<Rightarrow> initContainers)"

definition withSidecarContainers :: "SolrCloud \<Rightarrow> Container list \<Rightarrow> Container list" where
  "withSidecarContainers solrCloud containers =
     (case customPodOptions (specCustomSolrKubeOptions (cloudSpec solrCloud)) of
        Some opts \<Rightarrow> containers @ podOptSidecarContainers opts
      | None \<Rightarrow> containers)"

text \<open>The StatefulSet as it stands at line 560, before the TLS enrichment.\<close>

definition solrStatefulSet ::
  "api \<Rightarrow> SolrCloud \<Rightarrow> SolrCloudStatus \<Rightarrow> (string \<times> string) list \<Rightarrow> labels \<Rightarrow> TLSCerts option
     \<Rightarrow> StatefulSet option" where
  "solrStatefulSet api solrCloud solrCloudStatus hostNameIPs reconcileConfigInfo tls =
     (case solrVolumesAndMounts api solrCloud reconcileConfigInfo tls of
        None \<Rightarrow> None
      | Some (solrVolumes, volumeMounts, pvcs, logEnv) \<Rightarrow>
         (case generateSolrSetupInitContainers api solrCloud solrCloudStatus ''data'' reconcileConfigInfo of
            None \<Rightarrow> None
          | Some initContainers \<Rightarrow>
              Some
                \<lparr>ssMeta =
                   \<lparr>metaName = StatefulSetName api solrCloud,
                    metaNamespace = cloudNamespace solrCloud,
                    metaLabels = statefulSetLabels api solrCloud,
                    metaAnnotations = statefulSetAnnotations api solrCloud solrCloudStatus\<rparr>,
                 ssSelectorMatchLabels =
                   (SharedLabels api solrCloud)(''technology'' \<mapsto> SolrTechnologyLabel api),
                 ssServiceName = HeadlessServiceName api solrCloud,
                 ssReplicas = specReplicas (cloudSpec solrCloud),
                 ssPodManagementPolicy = statefulSetPodManagementPolicy solrCloud,
                 ssUpdateStrategy = statefulSetUpdateStrategy solrCloud,
                 ssTemplateLabels = statefulSetPodLabels api solrCloud,
                 ssTemplateAnnotations = podAnnotationsOf solrCloud reconcileConfigInfo,
                 ssTemplateSpec =
                   solrPodSpec solrCloud solrVolumes
                     (withCustomInitContainers solrCloud initContainers)
                     (hostAliasesOf hostNameIPs)
                     (withSidecarContainers solrCloud
                        [solrContainer api solrCloud solrCloudStatus tls volumeMounts
                           (solrEnvVars api solrCloud solrCloudStatus logEnv)]),
                 ssVolumeClaimTemplates = pvcs\<rparr>))"

text \<open>\<^verbatim>\<open>GenerateStatefulSet\<close>: the TLS enrichment of lines 561-564 comes last.\<close>

definition GenerateStatefulSet ::
  "api \<Rightarrow> SolrCloud \<Rightarrow> SolrCloudStatus \<Rightarrow> (string \<times> string) list \<Rightarrow> labels \<Rightarrow> TLSCerts option
     \<Rightarrow> StatefulSet option" where
  "GenerateStatefulSet api solrCloud solrCloudStatus hostNameIPs reconcileConfigInfo tls =
     (case solrStatefulSet api solrCloud solrCloudStatus hostNameIPs reconcileConfigInfo tls of
        None \<Rightarrow> None
      | Some stateful \<Rightarrow>
          (case tls of
             Some t \<Rightarrow> Some (enableTLSOnSolrCloudStatefulSet api t stateful)
           | None \<Rightarrow> Some stateful))"


definition livenessProbeOverride :: "SolrCloud \<Rightarrow> Probe option" where
  "livenessProbeOverride solrCloud =
     (case customPodOptions (specCustomSolrKubeOptions (cloudSpec solrCloud)) of
        Some podOptions \<Rightarrow> podOptLivenessProbe podOptions
      | None \<Rightarrow> None)"

definition readinessProbeOverride :: "SolrCloud \<Rightarrow> Probe option" where
  "readinessProbeOverride solrCloud =
     (case customPodOptions (specCustomSolrKubeOptions (cloudSpec solrCloud)) of
        Some podOptions \<Rightarrow> podOptReadinessProbe podOptions
      | None \<Rightarrow> None)"

text \<open>The two conditions under which the probes run a command: the TLS server configuration
  asks for a client certificate, or the security options ask the probes to authenticate.\<close>

definition probesRequireAuth :: "SolrCloud \<Rightarrow> bool" where
  "probesRequireAuth solrCloud \<longleftrightarrow>
     (\<exists>security. specSolrSecurity (cloudSpec solrCloud) = Some security
        \<and> securityProbesRequireAuth security)"

definition clientAuthRequired :: "TLSCerts option \<Rightarrow> bool" where
  "clientAuthRequired tls \<longleftrightarrow>
     (\<exists>t serverConfig. tls = Some t \<and> tlsServerConfig t = Some serverConfig
        \<and> tlsClientAuth serverConfig \<noteq> ClientAuthNone)"

text \<open>
  The inputs on which \<^verbatim>\<open>GenerateStatefulSet\<close> dereferences no nil pointer: persistent
  storage comes with its claim template, and a backup repository that has a volume source
  or is managed has a mount.
\<close>

definition noNilDereference :: "api \<Rightarrow> SolrCloud \<Rightarrow> bool" where
  "noNilDereference api solrCloud \<longleftrightarrow>
     (UsesPersistentStorage api solrCloud \<longrightarrow>
        storagePersistentPVCTemplate (specStorageOptions (cloudSpec solrCloud)) \<noteq> None)
     \<and> (\<forall>repo \<in> set (specBackupRepositories (cloudSpec solrCloud)).
          fst (RepoVolumeSourceAndMount api repo (cloudName solrCloud)) \<noteq> None
            \<or> IsRepoManaged api repo
          \<longrightarrow> snd (RepoVolumeSourceAndMount api repo (cloudName solrCloud)) \<noteq> None)"

subsection \<open>Merging labels\<close>



definition keepsBaseKeys :: "api \<Rightarrow> bool" where
  "keepsBaseKeys api \<longleftrightarrow>
     (\<forall>base additional. dom base \<subseteq> dom (MergeLabelsOrAnnotations api base additional))"

subsection \<open>Overrides of a probe\<close>

text \<open>
  Modelled from the spec: \<^verbatim>\<open>customizeProbe\<close> is in another file of the package and is a
  parameter of \<^verbatim>\<open>GenerateStatefulSet\<close> above. The specification (4.8) says of the
  explicit probe overrides that they win over the computed default on every field they
  touch: a handler that is set replaces the computed handler, a number that is set replaces
  the computed number. This definition is used only to evaluate the functions on an input
  with a probe override.
\<close>

definition customizeProbeFromSpec :: "Probe \<Rightarrow> Probe \<Rightarrow> Probe" where
  "customizeProbeFromSpec initialProbe customProbe =
     \<lparr>probeInitialDelaySeconds =
        (if probeInitialDelaySeconds customProbe \<noteq> 0 then probeInitialDelaySeconds customProbe
         else probeInitialDelaySeconds initialProbe),
      probeTimeoutSeconds =
        (if probeTimeoutSeconds customProbe \<noteq> 0 then probeTimeoutSeconds customProbe
         else probeTimeoutSeconds initialProbe),
      probeSuccessThreshold =
        (if probeSuccessThreshold customProbe \<noteq> 0 then probeSuccessThreshold customProbe
         else probeSuccessThreshold initialProbe),
      probeFailureThreshold =
        (if probeFailureThreshold customProbe \<noteq> 0 then probeFailureThreshold customProbe
         else probeFailureThreshold initialProbe),
      probePeriodSeconds =
        (if probePeriodSeconds customProbe \<noteq> 0 then probePeriodSeconds customProbe
         else probePeriodSeconds initialProbe),
      probeHandler =
        (if handlerExec (probeHandler customProbe) \<noteq> None
            \<or> handlerHTTPGet (probeHandler customProbe) \<noteq> None
            \<or> handlerTCPSocket (probeHandler customProbe) \<noteq> None
         then probeHandler customProbe else probeHandler initialProbe)\<rparr>"

subsection \<open>A concrete instance\<close>

text \<open>
  One instance of the parameters and one SolrCloud, on which the functions above are
  evaluated. The cloud follows \<^verbatim>\<open>example/test_solrcloud.yaml\<close> with ephemeral storage.
\<close>

definition exampleApi :: api where
  \<open>exampleApi =
     \<lparr>SolrTechnologyLabel = ''solr-cloud'',
      PublicReadOnlyPermissions = 420,
      SecretReadOnlyPermissions = 256,
      SharedLabelsWith = (\<lambda>solrCloud labels. labels(''solr-cloud'' \<mapsto> cloudName solrCloud)),
      SharedLabels = (\<lambda>solrCloud. [''solr-cloud'' \<mapsto> cloudName solrCloud]),
      MergeLabelsOrAnnotations = (\<lambda>base additional. additional ++ base),
      StatefulSetName = (\<lambda>solrCloud. cloudName solrCloud @ ''-solrcloud''),
      HeadlessServiceName = (\<lambda>solrCloud. cloudName solrCloud @ ''-solrcloud-headless''),
      CommonServiceName = (\<lambda>solrCloud. cloudName solrCloud @ ''-solrcloud-common''),
      ConfigMapName = (\<lambda>solrCloud. cloudName solrCloud @ ''-solrcloud-configmap''),
      CommonIngressName = (\<lambda>solrCloud. cloudName solrCloud @ ''-solrcloud-common''),
      BasicAuthSecretName = (\<lambda>solrCloud. cloudName solrCloud @ ''-solrcloud-basic-auth''),
      SecurityBootstrapSecretName = (\<lambda>solrCloud. cloudName solrCloud @ ''-solrcloud-security-bootstrap''),
      NodePort = (\<lambda>solrCloud. addrPodPort (specSolrAddressability (cloudSpec solrCloud))),
      AdvertisedNodeHost =
        (\<lambda>solrCloud host. host @ ''.'' @ cloudName solrCloud @ ''-solrcloud-headless.''
           @ cloudNamespace solrCloud),
      UsesPersistentStorage =
        (\<lambda>solrCloud. storagePersistentPVCTemplate (specStorageOptions (cloudSpec solrCloud)) \<noteq> None),
      UrlScheme = (\<lambda>solrCloud external. if specSolrTLS (cloudSpec solrCloud) \<noteq> None then ''https'' else ''http''),
      ExternalDnsDomain = (\<lambda>solrCloud domain. cloudNamespace solrCloud @ ''.'' @ domain),
      ExternalCommonUrl =
        (\<lambda>solrCloud domain withPort.
           cloudNamespace solrCloud @ ''-'' @ cloudName solrCloud @ ''-solrcloud.'' @ domain),
      ExternalNodeUrl =
        (\<lambda>solrCloud nodeName domain withPort.
           cloudNamespace solrCloud @ ''-'' @ nodeName @ ''.'' @ domain),
      ToImageName = (\<lambda>image. imageRepository image @ '':'' @ imageTag image),
      ZkConnectionString = (\<lambda>status. status),
      DissectZkInfo =
        (\<lambda>status. (status, takeWhile (\<lambda>c. c \<noteq> CHR ''/'') status,
                    dropWhile (\<lambda>c. c \<noteq> CHR ''/'') status)),
      ZkACLEnvVars = (\<lambda>solrCloud. (False, [])),
      AdditionalRepoLibs =
        (\<lambda>repo. case repoVariant repo of
           GcsRepository _ \<Rightarrow> [''/opt/solr/dist'', ''/opt/solr/contrib/gcs-repository/lib'']
         | S3Repository _ \<Rightarrow> [''/opt/solr/dist'', ''/opt/solr/contrib/s3-repository/lib'']
         | ManagedRepository _ \<Rightarrow> []),
      RepoXML =
        (\<lambda>repo. ''<repository name="'' @ repoName repo @ ''" class="''
           @ (case repoVariant repo of
                GcsRepository _ \<Rightarrow> ''org.apache.solr.gcs.GCSBackupRepository''
              | S3Repository _ \<Rightarrow> ''org.apache.solr.s3.S3BackupRepository''
              | ManagedRepository _ \<Rightarrow> ''org.apache.solr.core.backup.repository.LocalFileSystemRepository'')
           @ ''"/>''),
      RepoVolumeSourceAndMount =
        (\<lambda>repo name. case repoVariant repo of
           ManagedRepository volume \<Rightarrow>
             (Some (emptyVolumeSource\<lparr>vsOther := Some volume\<rparr>),
              Some (plainMount '''' (''/var/solr/data/backup-restore-managed-'' @ repoName repo)))
         | _ \<Rightarrow> (None, None)),
      RepoVolumeName = (\<lambda>repo. ''backup-repository-'' @ repoName repo),
      IsRepoManaged =
        (\<lambda>repo. case repoVariant repo of ManagedRepository _ \<Rightarrow> True | _ \<Rightarrow> False),
      secureProbeTLSJavaToolOpts = (\<lambda>solrCloud. ('''', '''')),
      setUrlSchemeClusterPropCmd = ''solr zk ls ${ZK_CHROOT} -z ${ZK_SERVER} || solr zk mkroot ${ZK_CHROOT} -z ${ZK_SERVER}; '',
      customizeProbe = customizeProbeFromSpec,
      enableTLSOnSolrCloudStatefulSet = (\<lambda>tls stateful. stateful)\<rparr>\<close>

definition exampleCloud :: SolrCloud where
  "exampleCloud =
     \<lparr>cloudName = ''example'',
      cloudNamespace = ''default'',
      cloudLabels = Map.empty,
      cloudSpec =
        \<lparr>specReplicas = Some 3,
         specSolrAddressability =
           \<lparr>addrPodPort = 8983, addrCommonServicePort = 80, addrExternal = None\<rparr>,
         specCustomSolrKubeOptions =
           \<lparr>customStatefulSetOptions = None, customPodOptions = None,
            customConfigMapOptions = None, customCommonServiceOptions = None,
            customHeadlessServiceOptions = None, customNodeServiceOptions = None,
            customIngressOptions = None\<rparr>,
         specStorageOptions = \<lparr>storagePersistentPVCTemplate = None, storageEphemeral = None\<rparr>,
         specBackupRepositories = [],
         specSolrImage =
           \<lparr>imageRepository = ''library/solr'', imageTag = ''8.7.0'', imagePullPolicy = '''',
            imagePullSecret = ''''\<rparr>,
         specBusyBoxImage =
           \<lparr>imageRepository = ''library/busybox'', imageTag = ''1.28.0-glibc'', imagePullPolicy = '''',
            imagePullSecret = ''''\<rparr>,
         specSolrJavaMem = ''-Xms1g -Xmx3g'',
         specSolrLogLevel = ''INFO'',
         specSolrGCTune = ''-XX:SurvivorRatio=4 -XX:TargetSurvivorRatio=90 -XX:MaxTenuringThreshold=8'',
         specSolrOpts = ''-Dsolr.autoSoftCommit.maxTime=10000'',
         specUpdateStrategyMethod = ManagedUpdate,
         specSolrTLS = None,
         specSolrSecurity = None,
         specZookeeperACLs = ''''\<rparr>\<rparr>"

definition exampleStatus :: SolrCloudStatus where
  "exampleStatus = ''example-solrcloud-zookeeper-client:2181/this/will/be/auto/created''"

definition examplePodOptions :: PodOptions where
  "examplePodOptions =
     \<lparr>podOptLabels = Map.empty, podOptAnnotations = Map.empty,
      podOptTerminationGracePeriodSeconds = None, podOptVolumes = [], podOptEnvVariables = [],
      podOptInitContainers = [], podOptSidecarContainers = [], podOptImagePullSecrets = [],
      podOptServiceAccountName = '''', podOptAffinity = None,
      podOptResources =
        \<lparr>resLimits = Some [''memory'' \<mapsto> ''1G''],
         resRequests = Some [''cpu'' \<mapsto> ''65m'', ''memory'' \<mapsto> ''156Mi'']\<rparr>,
      podOptPodSecurityContext = None, podOptLifecycle = None, podOptTolerations = None,
      podOptNodeSelector = None, podOptStartupProbe = None, podOptLivenessProbe = None,
      podOptReadinessProbe = None, podOptPriorityClassName = ''''\<rparr>"

definition withExternal :: "ExternalAddressability \<Rightarrow> SolrCloud \<Rightarrow> SolrCloud" where
  "withExternal external solrCloud =
     solrCloud\<lparr>cloudSpec := (cloudSpec solrCloud)
       \<lparr>specSolrAddressability := (specSolrAddressability (cloudSpec solrCloud))
          \<lparr>addrExternal := Some external\<rparr>\<rparr>\<rparr>"

definition withPodOptions :: "PodOptions \<Rightarrow> SolrCloud \<Rightarrow> SolrCloud" where
  "withPodOptions podOptions solrCloud =
     solrCloud\<lparr>cloudSpec := (cloudSpec solrCloud)
       \<lparr>specCustomSolrKubeOptions := (specCustomSolrKubeOptions (cloudSpec solrCloud))
          \<lparr>customPodOptions := Some podOptions\<rparr>\<rparr>\<rparr>"


definition withBackupRepositories :: "SolrBackupRepository list \<Rightarrow> SolrCloud \<Rightarrow> SolrCloud" where
  "withBackupRepositories repos solrCloud =
     solrCloud\<lparr>cloudSpec := (cloudSpec solrCloud)\<lparr>specBackupRepositories := repos\<rparr>\<rparr>"

definition withSecurity :: "SolrSecurityOptions \<Rightarrow> SolrCloud \<Rightarrow> SolrCloud" where
  "withSecurity security solrCloud =
     solrCloud\<lparr>cloudSpec := (cloudSpec solrCloud)\<lparr>specSolrSecurity := Some security\<rparr>\<rparr>"

definition exampleExternal :: ExternalAddressability where
  "exampleExternal =
     \<lparr>extMethod = Ingress, extDomainName = ''a.com'', extAdditionalDomainNames = [''b.com''],
      extHideCommon = False, extHideNodes = False, extIngressTLSTerminationSecret = ''''\<rparr>"

definition exampleRepositories :: "SolrBackupRepository list" where
  "exampleRepositories =
     [\<lparr>repoName = ''gcs-backups'', repoVariant = GcsRepository ''solr-bucket''\<rparr>,
      \<lparr>repoName = ''local_backup_repo'', repoVariant = ManagedRepository ''pvc-test''\<rparr>,
      \<lparr>repoName = ''archive'', repoVariant = S3Repository ''solr-archive''\<rparr>]"



definition httpLivenessProbe :: Probe where
  "httpLivenessProbe =
     \<lparr>probeInitialDelaySeconds = 30, probeTimeoutSeconds = 0, probeSuccessThreshold = 0,
      probeFailureThreshold = 0, probePeriodSeconds = 0,
      probeHandler = emptyHandler
        \<lparr>handlerHTTPGet := Some
           \<lparr>httpScheme = URISchemeHTTP, httpPath = ''/solr/admin/info/health'', httpPort = 8983\<rparr>\<rparr>\<rparr>"

definition exampleHostNameIPs :: "(string \<times> string) list" where
  "exampleHostNameIPs =
     [(''zk-1.example.internal'', ''10.0.0.12''), (''zk-0.example.internal'', ''10.0.0.11''),
      (''zk-2.example.internal'', ''10.0.0.13'')]"

text \<open>A stand-in for \<^verbatim>\<open>sha256.Sum256\<close> and for \<^verbatim>\<open>rand.Read\<close>, to evaluate the password
  hash on: any function from bytes to 32 bytes will do.\<close>

definition exampleSum256 :: "string \<Rightarrow> string" where
  "exampleSum256 bytes = take 32 (rev bytes @ replicate 32 (CHR ''0''))"

definition exampleRandRead :: "nat \<Rightarrow> string" where
  "exampleRandRead n = replicate n (CHR ''r'')"





section \<open>Properties\<close>

subsection \<open>Validation of a user-provided basic-auth secret\<close>

text \<open>
  C8. \<^verbatim>\<open>ValidateBasicAuthSecret\<close> returns an error exactly when the secret's type is not
  the basic-auth type, or its data has no username key, or its data has no password key;
  otherwise it returns nil. In every case the secret is left as it was.
\<close>

theorem ValidateBasicAuthSecret_error_iff:
  "(snd (ValidateBasicAuthSecret s) \<noteq> None \<longleftrightarrow>
      (secretType s \<noteq> SecretTypeBasicAuth
       \<or> BasicAuthUsernameKey \<notin> dom (secretData s)
       \<or> BasicAuthPasswordKey \<notin> dom (secretData s)))
   \<and> fst (ValidateBasicAuthSecret s) = s"
  by (auto simp: ValidateBasicAuthSecret_def domIff)

theorem ValidateBasicAuthSecret_error_iff_witness:
  "snd (ValidateBasicAuthSecret
      \<lparr>secretName = ''user-secret'', secretType = SecretTypeBasicAuth,
       secretData = [BasicAuthUsernameKey \<mapsto> ''k8s-oper'', BasicAuthPasswordKey \<mapsto> ''pw'']\<rparr>) = None
   \<and> snd (ValidateBasicAuthSecret
      \<lparr>secretName = ''user-secret'', secretType = ''Opaque'',
       secretData = [BasicAuthUsernameKey \<mapsto> ''k8s-oper'', BasicAuthPasswordKey \<mapsto> ''pw'']\<rparr>) \<noteq> None
   \<and> snd (ValidateBasicAuthSecret
      \<lparr>secretName = ''user-secret'', secretType = SecretTypeBasicAuth,
       secretData = [BasicAuthUsernameKey \<mapsto> ''k8s-oper'']\<rparr>) \<noteq> None"
  using
    ValidateBasicAuthSecret_error_iff [of
      "\<lparr>secretName = ''user-secret'', secretType = SecretTypeBasicAuth,
        secretData = [BasicAuthUsernameKey \<mapsto> ''k8s-oper'', BasicAuthPasswordKey \<mapsto> ''pw'']\<rparr>"]
    ValidateBasicAuthSecret_error_iff [of
      "\<lparr>secretName = ''user-secret'', secretType = ''Opaque'',
        secretData = [BasicAuthUsernameKey \<mapsto> ''k8s-oper'', BasicAuthPasswordKey \<mapsto> ''pw'']\<rparr>"]
    ValidateBasicAuthSecret_error_iff [of
      "\<lparr>secretName = ''user-secret'', secretType = SecretTypeBasicAuth,
        secretData = [BasicAuthUsernameKey \<mapsto> ''k8s-oper'']\<rparr>"]
  by (simp add: SecretTypeBasicAuth_def BasicAuthUsernameKey_def BasicAuthPasswordKey_def)

subsection \<open>Shape of a random password\<close>

lemma upper_eq: "upper = ''ABCDEFGHIJKLMNPQRSTUVWXYZ''"
  by code_simp

lemma length_chars: "length chars = 76"
  by (simp add: chars_def upper_eq lower_def digits_def)

lemma fillInterior_fold:
  "\<forall>i\<in>set idxs. i < length perm \<and> perm ! i < length chars \<and> i < length pass \<Longrightarrow>
   fillInterior perm idxs pass = Some (fold (\<lambda>i p. p[i := chars ! (perm ! i)]) idxs pass)"
  by (induction idxs arbitrary: pass) auto

lemma upt_1_15: "[1 ..< 15] = [1, 2, 3, 4, 5, 6, 7, 8, 9, 10, 11, 12, 13, 14 :: nat]"
  by (simp add: upt_rec)

lemma replicate_16: "replicate 16 c = [c, c, c, c, c, c, c, c, c, c, c, c, c, c, c, c]"
  by (simp add: numeral_eq_Suc)

lemma validDraws_perm_bound:
  assumes "validDraws r0 r1 perm" and "i < 76"
  shows "i < length perm" and "perm ! i < 76"
proof -
  from assms(1) have p: "mset perm = mset [0 ..< 76]"
    by (simp add: validDraws_def length_chars)
  from p have lp: "length perm = 76"
    by (metis length_upt mset_eq_length minus_nat.diff_0)
  from p have sp: "set perm = {0 ..< 76}"
    by (metis mset_eq_setD set_upt)
  show "i < length perm" using lp assms(2) by simp
  then have "perm ! i \<in> set perm" by simp
  then show "perm ! i < 76" using sp by simp
qed

lemma randomPassword_value:
  assumes "validDraws r0 r1 perm"
  shows "randomPassword r0 r1 perm =
    Some ([lower ! r0] @ map (\<lambda>i. chars ! (perm ! i)) [1 ..< 15] @ [upper ! r1])"
proof -
  from assms have r0: "r0 < 25" and r1: "r1 < 25"
    by (simp_all add: validDraws_def upper_eq lower_def)
  define pass0 where "pass0 = (replicate 16 (CHR 0x00))[0 := lower ! r0, 15 := upper ! r1]"
  have l0: "length pass0 = 16" by (simp add: pass0_def)
  have "randomPassword r0 r1 perm = fillInterior perm [1 ..< 15] pass0"
    using r0 r1 unfolding randomPassword_def Let_def pass0_def
    by (simp add: upper_eq lower_def del: fillInterior.simps)
  also have "\<dots> = Some (fold (\<lambda>i p. p[i := chars ! (perm ! i)]) [1 ..< 15] pass0)"
    by (rule fillInterior_fold)
      (use l0 validDraws_perm_bound [OF assms] in \<open>auto simp: length_chars\<close>)
  also have "fold (\<lambda>i p. p[i := chars ! (perm ! i)]) [1 ..< 15] pass0
    = [lower ! r0] @ map (\<lambda>i. chars ! (perm ! i)) [1 ..< 15] @ [upper ! r1]"
    unfolding pass0_def upt_1_15 replicate_16 by simp
  finally show ?thesis .
qed

text \<open>
  C7. Under the contract of \<^verbatim>\<open>math/rand\<close> for the draws of one call, \<^verbatim>\<open>randomPassword\<close>
  returns a password of exactly 16 characters: the first is the drawn letter of \<open>lower\<close>,
  the last the drawn letter of \<open>upper\<close>, and the interior character at position \<open>i\<close>, for
  \<open>i\<close> from 1 to 14, is the character of the alphabet \<open>chars\<close> that the permutation drawn
  in this call selects at \<open>i\<close>.
\<close>

theorem randomPassword_shape:
  assumes "validDraws r0 r1 perm"
  shows "\<exists>pass. randomPassword r0 r1 perm = Some pass
    \<and> length pass = 16
    \<and> pass ! 0 = lower ! r0 \<and> pass ! 0 \<in> set lower
    \<and> pass ! 15 = upper ! r1 \<and> pass ! 15 \<in> set upper
    \<and> (\<forall>i. 1 \<le> i \<and> i \<le> 14 \<longrightarrow> pass ! i = chars ! (perm ! i) \<and> pass ! i \<in> set chars)"
proof -
  let ?pass = "[lower ! r0] @ map (\<lambda>i. chars ! (perm ! i)) [1 ..< 15] @ [upper ! r1]"
  from assms have r0: "r0 < length lower" and r1: "r1 < length upper"
    by (simp_all add: validDraws_def)
  have inner: "?pass ! i = chars ! (perm ! i) \<and> ?pass ! i \<in> set chars"
    if "1 \<le> i" "i \<le> 14" for i
  proof -
    from that obtain j where j: "i = Suc j" "j < 14" by (cases i) auto
    have "perm ! i < length chars"
      using validDraws_perm_bound(2) [OF assms, of i] that by (simp add: length_chars)
    then have "chars ! (perm ! i) \<in> set chars" by simp
    moreover have "?pass ! i = chars ! (perm ! i)"
      using j by (simp add: nth_append)
    ultimately show ?thesis by simp
  qed
  have last: "?pass ! 15 = upper ! r1"
    by (simp add: nth_append)
  have first: "?pass ! 0 = lower ! r0"
    by simp
  have len: "length ?pass = 16"
    by simp
  have "lower ! r0 \<in> set lower" "upper ! r1 \<in> set upper"
    using r0 r1 by simp_all
  with first last len inner randomPassword_value [OF assms] show ?thesis
    by (intro exI [of _ ?pass]) metis
qed

theorem randomPassword_shape_witness:
  "validDraws 3 4 (rev [0 ..< 76])
   \<and> (\<exists>pass. randomPassword 3 4 (rev [0 ..< 76]) = Some pass
        \<and> length pass = 16 \<and> pass ! 0 = CHR ''d'' \<and> pass ! 15 = CHR ''E''
        \<and> pass ! 1 = chars ! (rev [0 ..< 76] ! 1))"
proof -
  have h: "validDraws 3 4 (rev [0 ..< 76])"
    by (simp add: validDraws_def length_chars upper_eq lower_def)
  from randomPassword_shape [OF h] obtain pass where
    p: "randomPassword 3 4 (rev [0 ..< 76]) = Some pass" "length pass = 16"
      "pass ! 0 = lower ! 3" "pass ! 15 = upper ! 4"
      "\<forall>i. 1 \<le> i \<and> i \<le> 14 \<longrightarrow> pass ! i = chars ! (rev [0 ..< 76] ! i) \<and> pass ! i \<in> set chars"
    by blast
  from p(5) have "pass ! 1 = chars ! (rev [0 ..< 76] ! 1)" by simp
  moreover have "lower ! 3 = CHR ''d''" "upper ! 4 = CHR ''E''"
    by (simp_all add: lower_def upper_eq)
  ultimately show ?thesis using h p by simp
qed

subsection \<open>Ingress rules\<close>

lemma foldl_appendRule:
  "foldl (\<lambda>acc x. appendRule acc (f x)) acc xs
     = (fst acc @ map f xs, snd acc @ map (\<lambda>x. ruleHost (f x)) xs)"
  by (induction xs arbitrary: acc) (simp_all add: appendRule_def)

lemma foldl_append_pairs:
  "foldl (\<lambda>acc n. (fst acc @ f n, snd acc @ h n)) acc ns
     = (fst acc @ concat (map f ns), snd acc @ concat (map h ns))"
  by (induction ns arbitrary: acc) simp_all

lemma length_concat_map_map:
  "length (concat (map (\<lambda>n. map (g n) ds) ns)) = length ds * length ns"
  by (induction ns) simp_all

lemma CreateSolrIngressRules_eq:
  assumes "addrExternal (specSolrAddressability (cloudSpec solrCloud)) = Some external"
  shows "CreateSolrIngressRules api solrCloud nodeNames domainNames =
    Some ((if extHideCommon external then []
           else map (CreateCommonIngressRule api solrCloud) domainNames)
          @ (if extHideNodes external then []
             else concat (map (\<lambda>nodeName.
                    map (CreateNodeIngressRule api solrCloud nodeName) domainNames) nodeNames)),
         map ruleHost
          ((if extHideCommon external then []
            else map (CreateCommonIngressRule api solrCloud) domainNames)
           @ (if extHideNodes external then []
              else concat (map (\<lambda>nodeName.
                     map (CreateNodeIngressRule api solrCloud nodeName) domainNames) nodeNames))))"
  using assms
  by (simp add: CreateSolrIngressRules_def Let_def foldl_appendRule foldl_append_pairs
      map_concat comp_def)

text \<open>
  C2. For a SolrCloud with external addressability, \<^verbatim>\<open>CreateSolrIngressRules\<close> returns,
  for \<open>N\<close> domain names and \<open>M\<close> node names, first one common rule per domain unless
  \<open>HideCommon\<close> is set, then one rule per pair of a node and a domain, node by node, unless
  \<open>HideNodes\<close> is set: \<open>N + N * M\<close> rules when neither is set. The host of a common rule is
  the cluster's common external URL for its domain, the host of a node rule is that node's
  external URL for its domain, and the list of hosts follows the list of rules.
\<close>

theorem CreateSolrIngressRules_rules:
  assumes "addrExternal (specSolrAddressability (cloudSpec solrCloud)) = Some external"
  shows "\<exists>rules hosts.
    CreateSolrIngressRules api solrCloud nodeNames domainNames = Some (rules, hosts)
    \<and> rules =
        (if extHideCommon external then []
         else map (CreateCommonIngressRule api solrCloud) domainNames)
        @ (if extHideNodes external then []
           else concat (map (\<lambda>nodeName.
                  map (CreateNodeIngressRule api solrCloud nodeName) domainNames) nodeNames))
    \<and> hosts = map ruleHost rules
    \<and> length rules =
        (if extHideCommon external then 0 else length domainNames)
        + (if extHideNodes external then 0 else length domainNames * length nodeNames)
    \<and> (\<forall>domainName. ruleHost (CreateCommonIngressRule api solrCloud domainName)
          = ExternalCommonUrl api solrCloud domainName False)
    \<and> (\<forall>nodeName domainName. ruleHost (CreateNodeIngressRule api solrCloud nodeName domainName)
          = ExternalNodeUrl api solrCloud nodeName domainName False)"
  unfolding CreateSolrIngressRules_eq [OF assms]
  by (simp add: length_concat_map_map CreateCommonIngressRule_def CreateNodeIngressRule_def)

theorem CreateSolrIngressRules_rules_witness:
  "addrExternal (specSolrAddressability (cloudSpec (withExternal exampleExternal exampleCloud)))
     = Some exampleExternal
   \<and> (\<exists>rules hosts.
        CreateSolrIngressRules exampleApi (withExternal exampleExternal exampleCloud)
          [''example-solrcloud-0'', ''example-solrcloud-1'', ''example-solrcloud-2'']
          [''a.com'', ''b.com''] = Some (rules, hosts)
        \<and> length rules = 2 + 2 * 3
        \<and> hosts ! 0 = ''default-example-solrcloud.a.com''
        \<and> hosts ! 7 = ''default-example-solrcloud-2.b.com'')"
proof -
  have h: "addrExternal (specSolrAddressability (cloudSpec (withExternal exampleExternal exampleCloud)))
     = Some exampleExternal"
    by (simp add: withExternal_def)
  from CreateSolrIngressRules_rules [OF h, of exampleApi
      "[''example-solrcloud-0'', ''example-solrcloud-1'', ''example-solrcloud-2'']"
      "[''a.com'', ''b.com'']"]
  obtain rules hosts where
    r: "CreateSolrIngressRules exampleApi (withExternal exampleExternal exampleCloud)
          [''example-solrcloud-0'', ''example-solrcloud-1'', ''example-solrcloud-2'']
          [''a.com'', ''b.com''] = Some (rules, hosts)"
    and rules: "rules =
        (if extHideCommon exampleExternal then []
         else map (CreateCommonIngressRule exampleApi (withExternal exampleExternal exampleCloud)) [''a.com'', ''b.com''])
        @ (if extHideNodes exampleExternal then []
           else concat (map (\<lambda>nodeName.
                  map (CreateNodeIngressRule exampleApi (withExternal exampleExternal exampleCloud) nodeName) [''a.com'', ''b.com''])
                  [''example-solrcloud-0'', ''example-solrcloud-1'', ''example-solrcloud-2'']))"
    and hosts: "hosts = map ruleHost rules"
    and len: "length rules =
        (if extHideCommon exampleExternal then 0 else length [''a.com'', ''b.com''])
        + (if extHideNodes exampleExternal then 0
           else length [''a.com'', ''b.com'']
             * length [''example-solrcloud-0'', ''example-solrcloud-1'', ''example-solrcloud-2''])"
    by blast
  have "length rules = 2 + 2 * 3"
    using len by (simp add: exampleExternal_def)
  moreover have "hosts ! 0 = ''default-example-solrcloud.a.com''"
    "hosts ! 7 = ''default-example-solrcloud-2.b.com''"
    unfolding hosts rules
    by (simp_all add: exampleExternal_def CreateCommonIngressRule_def CreateNodeIngressRule_def
        exampleApi_def withExternal_def exampleCloud_def)
  ultimately show ?thesis using h r by blast
qed

subsection \<open>The backup section does not depend on an order\<close>

lemma sort_rangeOrder:
  assumes "validRangeOrder rangeOrder keys"
  shows "sort (rangeOrder keys) = sorted_list_of_set keys"
proof -
  from assms have s: "set (rangeOrder keys) = keys" and d: "distinct (rangeOrder keys)"
    by (simp_all add: validRangeOrder_def)
  have "sorted_list_of_set (set (rangeOrder keys)) = sort (remdups (rangeOrder keys))"
    by (rule sorted_list_of_set_sort_remdups)
  with s d show ?thesis by (simp add: distinct_remdups_id)
qed

lemma sort_map_mset_cong:
  assumes "mset xs = mset ys"
  shows "sort (map f xs) = sort (map f ys)"
proof -
  from assms have "mset (map f xs) = mset (map f ys)" by (metis mset_map)
  then show ?thesis by (metis sorted_list_of_multiset_mset)
qed

lemma repoLibs_mset_cong:
  assumes "mset xs = mset ys"
  shows "repoLibs api xs = repoLibs api ys"
  using mset_eq_setD [OF assms] by (simp add: repoLibs_def)

lemma GenerateBackupRepositoriesForSolrXml_closed:
  assumes "validRangeOrder rangeOrder (repoLibs api backupRepos)"
  shows \<open>GenerateBackupRepositoriesForSolrXml api rangeOrder backupRepos =
    (if backupRepos = [] then ''''
     else (if repoLibs api backupRepos = {} then ''''
           else ''<str name="sharedLib">'' @ Join (sorted_list_of_set (repoLibs api backupRepos)) '',''
                @ ''</str>'')
          @ '' \<newline>'' @ [CHR 0x09, CHR 0x09] @ ''<backup>\<newline>'' @ [CHR 0x09, CHR 0x09]
          @ Join (sort (map (RepoXML api) backupRepos)) ''\<newline>''
          @ ''\<newline>'' @ [CHR 0x09, CHR 0x09] @ ''</backup>'')\<close>
  using sort_rangeOrder [OF assms]
  by (simp add: GenerateBackupRepositoriesForSolrXml_def repoLibs_def Let_def)


text \<open>
  C4. \<^verbatim>\<open>GenerateBackupRepositoriesForSolrXml\<close> returns the same string for a list of
  backup repositories and for every permutation of it, whatever the orders in which the two
  calls range over the map of library names: the library names appear once each, sorted,
  and the repository fragments appear sorted.
\<close>

theorem GenerateBackupRepositoriesForSolrXml_permutation:
  assumes "mset backupRepos' = mset backupRepos"
    and "validRangeOrder rangeOrder (repoLibs api backupRepos)"
    and "validRangeOrder rangeOrder' (repoLibs api backupRepos')"
  shows \<open>GenerateBackupRepositoriesForSolrXml api rangeOrder' backupRepos'
      = GenerateBackupRepositoriesForSolrXml api rangeOrder backupRepos
    \<and> GenerateBackupRepositoriesForSolrXml api rangeOrder backupRepos =
       (if backupRepos = [] then ''''
        else (if repoLibs api backupRepos = {} then ''''
              else ''<str name="sharedLib">''
                   @ Join (sorted_list_of_set (repoLibs api backupRepos)) '','' @ ''</str>'')
             @ '' \<newline>'' @ [CHR 0x09, CHR 0x09] @ ''<backup>\<newline>'' @ [CHR 0x09, CHR 0x09]
             @ Join (sort (map (RepoXML api) backupRepos)) ''\<newline>''
             @ ''\<newline>'' @ [CHR 0x09, CHR 0x09] @ ''</backup>'')\<close>
proof -
  have libs: "repoLibs api backupRepos' = repoLibs api backupRepos"
    by (rule repoLibs_mset_cong [OF assms(1)])
  have xmls: "sort (map (RepoXML api) backupRepos') = sort (map (RepoXML api) backupRepos)"
    by (rule sort_map_mset_cong [OF assms(1)])
  have empty: "backupRepos' = [] \<longleftrightarrow> backupRepos = []"
    using assms(1) by (metis mset_zero_iff)
  show ?thesis
    unfolding GenerateBackupRepositoriesForSolrXml_closed [OF assms(2)]
      GenerateBackupRepositoriesForSolrXml_closed [OF assms(3)]
    by (simp add: libs xmls empty)
qed

theorem GenerateBackupRepositoriesForSolrXml_permutation_witness:
  "mset (rev exampleRepositories) = mset exampleRepositories
   \<and> validRangeOrder sorted_list_of_set (repoLibs exampleApi exampleRepositories)
   \<and> validRangeOrder (\<lambda>keys. rev (sorted_list_of_set keys)) (repoLibs exampleApi (rev exampleRepositories))
   \<and> GenerateBackupRepositoriesForSolrXml exampleApi (\<lambda>keys. rev (sorted_list_of_set keys))
        (rev exampleRepositories)
      = GenerateBackupRepositoriesForSolrXml exampleApi sorted_list_of_set exampleRepositories"
proof -
  have m: "mset (rev exampleRepositories) = mset exampleRepositories"
    by simp
  have v: "validRangeOrder sorted_list_of_set (repoLibs exampleApi exampleRepositories)"
    by (simp add: validRangeOrder_def repoLibs_def)
  have v': "validRangeOrder (\<lambda>keys. rev (sorted_list_of_set keys))
      (repoLibs exampleApi (rev exampleRepositories))"
    by (simp add: validRangeOrder_def repoLibs_def)
  from GenerateBackupRepositoriesForSolrXml_permutation [OF m v v'] m v v'
  show ?thesis by blast
qed

subsection \<open>The StatefulSet: what it is built from\<close>

lemma solrPodSpec_fields:
  "podVolumes (solrPodSpec solrCloud solrVolumes initContainers hostAliases containers) = solrVolumes"
  "podHostAliases (solrPodSpec solrCloud solrVolumes initContainers hostAliases containers) = hostAliases"
  "podContainers (solrPodSpec solrCloud solrVolumes initContainers hostAliases containers) = containers"
  "podInitContainers (solrPodSpec solrCloud solrVolumes initContainers hostAliases containers) = initContainers"
  by (simp_all add: solrPodSpec_def Let_def split: option.split)

lemma solrStatefulSet_parts:
  assumes "solrStatefulSet api solrCloud solrCloudStatus hostNameIPs reconcileConfigInfo tls = Some stateful"
  shows "\<exists>solrVolumes volumeMounts pvcs logEnv.
    solrVolumesAndMounts api solrCloud reconcileConfigInfo tls = Some (solrVolumes, volumeMounts, pvcs, logEnv)
    \<and> podVolumes (ssTemplateSpec stateful) = solrVolumes
    \<and> ssVolumeClaimTemplates stateful = pvcs
    \<and> podHostAliases (ssTemplateSpec stateful) = hostAliasesOf hostNameIPs
    \<and> podContainers (ssTemplateSpec stateful) =
        withSidecarContainers solrCloud
          [solrContainer api solrCloud solrCloudStatus tls volumeMounts
             (solrEnvVars api solrCloud solrCloudStatus logEnv)]
    \<and> metaLabels (ssMeta stateful) = statefulSetLabels api solrCloud
    \<and> metaAnnotations (ssMeta stateful) = statefulSetAnnotations api solrCloud solrCloudStatus
    \<and> ssTemplateLabels stateful = statefulSetPodLabels api solrCloud"
proof (cases "solrVolumesAndMounts api solrCloud reconcileConfigInfo tls")
  case None
  with assms show ?thesis by (simp add: solrStatefulSet_def)
next
  case (Some r)
  obtain solrVolumes volumeMounts pvcs logEnv where r: "r = (solrVolumes, volumeMounts, pvcs, logEnv)"
    by (cases r) auto
  show ?thesis
  proof (cases "generateSolrSetupInitContainers api solrCloud solrCloudStatus ''data'' reconcileConfigInfo")
    case None
    with assms Some r show ?thesis by (simp add: solrStatefulSet_def)
  next
    case ic: (Some initContainers)
    from assms [symmetric] show ?thesis
      unfolding solrStatefulSet_def Some r ic
      by (simp add: solrPodSpec_fields)
  qed
qed

lemma backupRepoVolumes_prefix:
  "backupRepoVolumes api name repos (solrVolumes, volumeMounts) = Some (solrVolumes', volumeMounts')
   \<Longrightarrow> prefix solrVolumes solrVolumes' \<and> prefix volumeMounts volumeMounts'"
proof (induction repos arbitrary: solrVolumes volumeMounts)
  case Nil
  then show ?case by simp
next
  case (Cons repo repos)
  show ?case
  proof (cases "RepoVolumeSourceAndMount api repo name")
    case (Pair vs m)
    show ?thesis
    proof (cases vs)
      case None
      with Cons Pair show ?thesis by simp
    next
      case (Some volumeSource)
      with Cons.prems Pair obtain mount where m: "m = Some mount"
        by (cases m) auto
      from Cons.prems Pair Some m
      have "backupRepoVolumes api name repos
            (solrVolumes @ [\<lparr>volName = RepoVolumeName api repo, volSource = volumeSource\<rparr>],
             volumeMounts @ [mount\<lparr>mountName := RepoVolumeName api repo\<rparr>]) = Some (solrVolumes', volumeMounts')"
        by simp
      from Cons.IH [OF this] show ?thesis
        by (auto dest: append_prefixD)
    qed
  qed
qed

lemma customVolumes_prefix:
  "prefix (fst acc) (fst (customVolumes volumes acc)) \<and> prefix (snd acc) (snd (customVolumes volumes acc))"
proof (induction volumes arbitrary: acc)
  case Nil
  then show ?case by (simp add: customVolumes_def)
next
  case (Cons volume volumes)
  obtain vs ms where acc: "acc = (vs, ms)" by (cases acc)
  let ?acc' = "(vs @ [\<lparr>volName = addVolName volume, volSource = addVolSource volume\<rparr>],
         (case addVolDefaultContainerMount volume of
            Some mount \<Rightarrow> ms @ [mount\<lparr>mountName := addVolName volume\<rparr>]
          | None \<Rightarrow> ms))"
  have step: "customVolumes (volume # volumes) acc = customVolumes volumes ?acc'"
    by (simp add: customVolumes_def acc)
  have p1: "prefix vs (fst ?acc')"
    by simp
  have p2: "prefix ms (snd ?acc')"
    by (simp split: option.split)
  from Cons.IH [of ?acc'] have i1: "prefix (fst ?acc') (fst (customVolumes volumes ?acc'))"
    and i2: "prefix (snd ?acc') (snd (customVolumes volumes ?acc'))"
    by blast+
  have "prefix vs (fst (customVolumes volumes ?acc'))"
    by (rule prefix_order.trans [OF p1 i1])
  moreover have "prefix ms (snd (customVolumes volumes ?acc'))"
    by (rule prefix_order.trans [OF p2 i2])
  ultimately show ?case
    using step by (simp add: acc)
qed









lemma backupRepoVolumes_total:
  assumes "\<forall>repo \<in> set repos.
      fst (RepoVolumeSourceAndMount api repo name) \<noteq> None
      \<longrightarrow> snd (RepoVolumeSourceAndMount api repo name) \<noteq> None"
  shows "\<exists>r. backupRepoVolumes api name repos acc = Some r"
  using assms
proof (induction repos arbitrary: acc)
  case Nil
  then show ?case by simp
next
  case (Cons repo repos)
  obtain vs ms where acc: "acc = (vs, ms)" by (cases acc)
  from Cons.prems have ih: "\<And>acc. \<exists>r. backupRepoVolumes api name repos acc = Some r"
    by (intro Cons.IH) simp
  from Cons.prems have h: "fst (RepoVolumeSourceAndMount api repo name) \<noteq> None
      \<longrightarrow> snd (RepoVolumeSourceAndMount api repo name) \<noteq> None" by simp
  show ?case
  proof (cases "RepoVolumeSourceAndMount api repo name")
    case (Pair v m)
    with h ih show ?thesis
      unfolding acc by (cases v; cases m) auto
  qed
qed

lemma managedRepoSetup_total:
  assumes "\<forall>repo \<in> set repos.
      IsRepoManaged api repo \<longrightarrow> snd (RepoVolumeSourceAndMount api repo name) \<noteq> None"
  shows "\<exists>r. managedRepoSetup api name repos acc = Some r"
  using assms
proof (induction repos arbitrary: acc)
  case Nil
  then show ?case by simp
next
  case (Cons repo repos)
  obtain vs ms where acc: "acc = (vs, ms)" by (cases acc)
  from Cons.prems have ih: "\<And>acc. \<exists>r. managedRepoSetup api name repos acc = Some r"
    by (intro Cons.IH) simp
  from Cons.prems have h: "IsRepoManaged api repo
      \<longrightarrow> snd (RepoVolumeSourceAndMount api repo name) \<noteq> None" by simp
  show ?case
    using h ih unfolding acc by (cases "snd (RepoVolumeSourceAndMount api repo name)") auto
qed

lemma generateSolrSetupInitContainers_total:
  assumes "noNilDereference api solrCloud"
  shows "\<exists>r. generateSolrSetupInitContainers api solrCloud solrCloudStatus name reconcileConfigInfo = Some r"
proof -
  from assms have "\<forall>repo \<in> set (specBackupRepositories (cloudSpec solrCloud)).
      IsRepoManaged api repo \<longrightarrow> snd (RepoVolumeSourceAndMount api repo (cloudName solrCloud)) \<noteq> None"
    by (simp add: noNilDereference_def)
  from managedRepoSetup_total [OF this] obtain r where
    "managedRepoSetup api (cloudName solrCloud) (specBackupRepositories (cloudSpec solrCloud))
             ([plainMount ''solr-xml'' ''/tmp'', plainMount name ''/tmp-config''],
              [''cp /tmp/solr.xml /tmp-config/solr.xml'']) = Some r" by blast
  then show ?thesis
    by (cases r) (simp add: generateSolrSetupInitContainers_def Let_def split: prod.split)
qed

lemma logConfigVolumes_total:
  assumes "volName vol = ''solr-xml''" and "vsConfigMap (volSource vol) \<noteq> None"
  shows "\<exists>r. logConfigVolumes api reconcileConfigInfo (vol # vols, mounts) = Some r"
  using assms
  by (auto simp: logConfigVolumes_def setupVolumeMountForUserProvidedConfigMapEntry_def Let_def)


lemma dataStorage_total:
  assumes "noNilDereference api solrCloud"
  shows "\<exists>pvcs more. dataStorage api solrCloud name [vol] = Some (pvcs, vol # more)"
  using assms by (auto simp: dataStorage_def noNilDereference_def)

lemma solrVolumesAndMounts_total:
  assumes "noNilDereference api solrCloud"
  shows "\<exists>r. solrVolumesAndMounts api solrCloud reconcileConfigInfo tls = Some r"
proof -
  let ?xml = "solrXmlVolume api reconcileConfigInfo"
  from dataStorage_total [OF assms] obtain pvcs more where
    ds: "dataStorage api solrCloud ''data'' [?xml] = Some (pvcs, ?xml # more)" by blast
  from assms have "\<forall>repo \<in> set (specBackupRepositories (cloudSpec solrCloud)).
      fst (RepoVolumeSourceAndMount api repo (cloudName solrCloud)) \<noteq> None
      \<longrightarrow> snd (RepoVolumeSourceAndMount api repo (cloudName solrCloud)) \<noteq> None"
    by (simp add: noNilDereference_def)
  from backupRepoVolumes_total [OF this] obtain acc where
    b: "backupRepoVolumes api (cloudName solrCloud) (specBackupRepositories (cloudSpec solrCloud))
          (?xml # more, [plainMount ''data'' ''/var/solr/data'']) = Some acc" by blast
  obtain v1 m1 where acc: "acc = (v1, m1)" by (cases acc)
  from backupRepoVolumes_prefix [OF b [unfolded acc]] have p1: "prefix (?xml # more) v1" by simp
  have "prefix v1 (fst (podOptionVolumes solrCloud acc))"
    using customVolumes_prefix [of acc] by (simp add: podOptionVolumes_def acc split: option.split)
  with p1 have "prefix (?xml # more) (fst (podOptionVolumes solrCloud acc))"
    by (rule prefix_order.trans)
  then obtain rest where "fst (podOptionVolumes solrCloud acc) = ?xml # rest"
    by (auto simp: prefix_def)
  then have "podOptionVolumes solrCloud acc = (?xml # rest, snd (podOptionVolumes solrCloud acc))"
    by (metis prod.collapse)
  moreover have "\<exists>r. logConfigVolumes api reconcileConfigInfo
      (?xml # rest, snd (podOptionVolumes solrCloud acc)) = Some r"
    by (rule logConfigVolumes_total) (simp_all add: solrXmlVolume_def)
  ultimately obtain r where
    "logConfigVolumes api reconcileConfigInfo (podOptionVolumes solrCloud acc) = Some r" by auto
  with ds b show ?thesis
    by (cases r) (simp add: solrVolumesAndMounts_def)
qed

lemma solrStatefulSet_total:
  assumes "noNilDereference api solrCloud"
  shows "\<exists>stateful. solrStatefulSet api solrCloud solrCloudStatus hostNameIPs reconcileConfigInfo tls
    = Some stateful"
proof -
  from solrVolumesAndMounts_total [OF assms] obtain r where
    r: "solrVolumesAndMounts api solrCloud reconcileConfigInfo tls = Some r" by blast
  from generateSolrSetupInitContainers_total [OF assms] obtain ic where
    ic: "generateSolrSetupInitContainers api solrCloud solrCloudStatus ''data'' reconcileConfigInfo
      = Some ic" by blast
  show ?thesis
    unfolding solrStatefulSet_def r ic by (cases r) simp
qed

lemma GenerateStatefulSet_eq:
  assumes "solrStatefulSet api solrCloud solrCloudStatus hostNameIPs reconcileConfigInfo tls
    = Some stateful"
  shows "GenerateStatefulSet api solrCloud solrCloudStatus hostNameIPs reconcileConfigInfo tls
    = Some (case tls of Some t \<Rightarrow> enableTLSOnSolrCloudStatefulSet api t stateful | None \<Rightarrow> stateful)"
  using assms by (simp add: GenerateStatefulSet_def split: option.split)






subsection \<open>The lifecycle of the Solr container\<close>


lemma solrContainer_probes:
  "containerLivenessProbe (solrContainer api solrCloud solrCloudStatus tls volumeMounts envVars) =
     (let livenessProbe =
            \<lparr>probeInitialDelaySeconds = 20,
             probeTimeoutSeconds = fst (snd (defaultProbeHandler api solrCloud tls)),
             probeSuccessThreshold = 1, probeFailureThreshold = 3, probePeriodSeconds = 10,
             probeHandler = fst (defaultProbeHandler api solrCloud tls)\<rparr>
      in case customPodOptions (specCustomSolrKubeOptions (cloudSpec solrCloud)) of
           None \<Rightarrow> Some livenessProbe
         | Some podOptions \<Rightarrow>
             (case podOptLivenessProbe podOptions of
                Some customProbe \<Rightarrow> Some (customizeProbe api livenessProbe customProbe)
              | None \<Rightarrow> Some livenessProbe))"
  "containerReadinessProbe (solrContainer api solrCloud solrCloudStatus tls volumeMounts envVars) =
     (let readinessProbe =
            \<lparr>probeInitialDelaySeconds = 15,
             probeTimeoutSeconds = fst (snd (defaultProbeHandler api solrCloud tls)),
             probeSuccessThreshold = 1, probeFailureThreshold = 3, probePeriodSeconds = 5,
             probeHandler = fst (defaultProbeHandler api solrCloud tls)\<rparr>
      in case customPodOptions (specCustomSolrKubeOptions (cloudSpec solrCloud)) of
           None \<Rightarrow> Some readinessProbe
         | Some podOptions \<Rightarrow>
             (case podOptReadinessProbe podOptions of
                Some customProbe \<Rightarrow> Some (customizeProbe api readinessProbe customProbe)
              | None \<Rightarrow> Some readinessProbe))"
  "containerVolumeMounts (solrContainer api solrCloud solrCloudStatus tls volumeMounts envVars) = volumeMounts"
  by (auto simp: solrContainer_def Let_def emptyContainer_def split: option.split prod.split)

lemma withSidecarContainers_first:
  "withSidecarContainers solrCloud [c] ! 0 = c"
  by (simp add: withSidecarContainers_def split: option.split)







subsection \<open>The probes of the Solr container\<close>

lemma probesNeedCommand_iff:
  "probesNeedCommand solrCloud tls \<longleftrightarrow> clientAuthRequired tls \<or> probesRequireAuth solrCloud"
  by (auto simp: probesNeedCommand_def clientAuthRequired_def probesRequireAuth_def
      split: option.splits)

lemma defaultProbeHandler_eq:
  "defaultProbeHandler api solrCloud tls =
     (if probesNeedCommand solrCloud tls
      then (emptyHandler\<lparr>handlerExec := Some
              [''sh'', ''-c'', fst (configureSecureProbeCommand api solrCloud (defaultHTTPGet solrCloud tls))]\<rparr>,
            5,
            fst (snd (configureSecureProbeCommand api solrCloud (defaultHTTPGet solrCloud tls))),
            snd (snd (configureSecureProbeCommand api solrCloud (defaultHTTPGet solrCloud tls))))
      else (emptyHandler\<lparr>handlerHTTPGet := Some (defaultHTTPGet solrCloud tls)\<rparr>, 1, None, None))"
  by (simp add: defaultProbeHandler_def Let_def split: prod.split)

lemma configureSecureProbeCommand_auth:
  assumes "probesRequireAuth solrCloud"
  shows \<open>configureSecureProbeCommand api solrCloud action =
    (collapseSpaces (TrimSpace
       (''JAVA_TOOL_OPTIONS="''
        @ TrimSpace
            (''-Dbasicauth=$(cat /etc/secrets/'' @ ReplaceAllDotDash (BasicAuthSecretName api solrCloud)
             @ ''/username):$(cat /etc/secrets/'' @ ReplaceAllDotDash (BasicAuthSecretName api solrCloud)
             @ ''/password)'' @ '' '' @ fst (secureProbeTLSJavaToolOpts api solrCloud))
        @ ''" java '' @ snd (secureProbeTLSJavaToolOpts api solrCloud) @ '' ''
        @ '' -Dsolr.httpclient.builder.factory=org.apache.solr.client.solrj.impl.PreemptiveBasicAuthClientBuilderFactory ''
        @ '' ''
        @ ''-Dsolr.install.dir="/opt/solr" -Dlog4j.configurationFile="/opt/solr/server/resources/log4j2-console.xml" ''
        @ ''-classpath "/opt/solr/server/solr-webapp/webapp/WEB-INF/lib/*:/opt/solr/server/lib/ext/*:/opt/solr/server/lib/*" ''
        @ ''org.apache.solr.util.SolrCLI api -get '' @ UrlScheme api solrCloud False
        @ ''://localhost:'' @ Itoa (httpPort action) @ httpPath action)),
     Some \<lparr>volName = ReplaceAllDotDash (BasicAuthSecretName api solrCloud),
           volSource = emptyVolumeSource
             \<lparr>vsSecret := Some
                \<lparr>secretRefName = BasicAuthSecretName api solrCloud,
                 secretDefaultMode = Some (SecretReadOnlyPermissions api)\<rparr>\<rparr>\<rparr>,
     Some (plainMount (ReplaceAllDotDash (BasicAuthSecretName api solrCloud))
             (''/etc/secrets/'' @ ReplaceAllDotDash (BasicAuthSecretName api solrCloud))))\<close>
  using assms
  by (auto simp: configureSecureProbeCommand_def probesRequireAuth_def Let_def
      BasicAuthUsernameKey_def BasicAuthPasswordKey_def split: prod.split)

lemma solrVolumesAndMounts_probe:
  assumes "solrVolumesAndMounts api solrCloud reconcileConfigInfo tls = Some (solrVolumes, volumeMounts, pvcs, logEnv)"
  shows "\<exists>vs ms.
    solrVolumes = vs @ optionToList (fst (snd (snd (defaultProbeHandler api solrCloud tls))))
    \<and> volumeMounts = ms @ optionToList (snd (snd (snd (defaultProbeHandler api solrCloud tls))))"
  using assms unfolding solrVolumesAndMounts_def
  by (auto split: option.splits prod.splits)


lemma solrStatefulSet_probes:
  assumes "noNilDereference api solrCloud"
  shows \<open>\<exists>stateful.
    solrStatefulSet api solrCloud solrCloudStatus hostNameIPs reconcileConfigInfo tls = Some stateful
    \<and> GenerateStatefulSet api solrCloud solrCloudStatus hostNameIPs reconcileConfigInfo tls
        = Some (case tls of
                  Some t \<Rightarrow> enableTLSOnSolrCloudStatefulSet api t stateful
                | None \<Rightarrow> stateful)
    \<and> (let secure = (clientAuthRequired tls \<or> probesRequireAuth solrCloud);
            probeCommand = fst (configureSecureProbeCommand api solrCloud (defaultHTTPGet solrCloud tls));
            handler =
              (if secure then emptyHandler\<lparr>handlerExec := Some [''sh'', ''-c'', probeCommand]\<rparr>
               else emptyHandler\<lparr>handlerHTTPGet := Some (defaultHTTPGet solrCloud tls)\<rparr>);
            timeout = (if secure then 5 else 1);
            livenessProbe =
              \<lparr>probeInitialDelaySeconds = 20, probeTimeoutSeconds = timeout,
               probeSuccessThreshold = 1, probeFailureThreshold = 3, probePeriodSeconds = 10,
               probeHandler = handler\<rparr>;
            readinessProbe =
              \<lparr>probeInitialDelaySeconds = 15, probeTimeoutSeconds = timeout,
               probeSuccessThreshold = 1, probeFailureThreshold = 3, probePeriodSeconds = 5,
               probeHandler = handler\<rparr>;
            secretVolume = ReplaceAllDotDash (BasicAuthSecretName api solrCloud);
            secretPath = ''/etc/secrets/'' @ secretVolume
        in containerLivenessProbe (podContainers (ssTemplateSpec stateful) ! 0) =
             (case livenessProbeOverride solrCloud of
                None \<Rightarrow> Some livenessProbe
              | Some customProbe \<Rightarrow> Some (customizeProbe api livenessProbe customProbe))
         \<and> containerReadinessProbe (podContainers (ssTemplateSpec stateful) ! 0) =
             (case readinessProbeOverride solrCloud of
                None \<Rightarrow> Some readinessProbe
              | Some customProbe \<Rightarrow> Some (customizeProbe api readinessProbe customProbe))
         \<and> (probesRequireAuth solrCloud \<longrightarrow>
               last (podVolumes (ssTemplateSpec stateful)) =
                 \<lparr>volName = secretVolume,
                  volSource = emptyVolumeSource
                    \<lparr>vsSecret := Some
                       \<lparr>secretRefName = BasicAuthSecretName api solrCloud,
                        secretDefaultMode = Some (SecretReadOnlyPermissions api)\<rparr>\<rparr>\<rparr>
               \<and> last (containerVolumeMounts (podContainers (ssTemplateSpec stateful) ! 0)) =
                   plainMount secretVolume secretPath
               \<and> probeCommand =
                   collapseSpaces (TrimSpace
                     (''JAVA_TOOL_OPTIONS="''
                      @ TrimSpace
                          (''-Dbasicauth=$(cat '' @ secretPath @ ''/username):$(cat '' @ secretPath
                           @ ''/password)'' @ '' '' @ fst (secureProbeTLSJavaToolOpts api solrCloud))
                      @ ''" java '' @ snd (secureProbeTLSJavaToolOpts api solrCloud) @ '' ''
                      @ '' -Dsolr.httpclient.builder.factory=org.apache.solr.client.solrj.impl.PreemptiveBasicAuthClientBuilderFactory ''
                      @ '' ''
                      @ ''-Dsolr.install.dir="/opt/solr" -Dlog4j.configurationFile="/opt/solr/server/resources/log4j2-console.xml" ''
                      @ ''-classpath "/opt/solr/server/solr-webapp/webapp/WEB-INF/lib/*:/opt/solr/server/lib/ext/*:/opt/solr/server/lib/*" ''
                      @ ''org.apache.solr.util.SolrCLI api -get '' @ UrlScheme api solrCloud False
                      @ ''://localhost:''
                      @ Itoa (int32 (addrPodPort (specSolrAddressability (cloudSpec solrCloud))))
                      @ ''/solr/admin/info/system''))))\<close>
proof -
  from solrStatefulSet_total [OF assms] obtain stateful where
    s: "solrStatefulSet api solrCloud solrCloudStatus hostNameIPs reconcileConfigInfo tls = Some stateful"
    by blast
  from solrStatefulSet_parts [OF s] obtain solrVolumes volumeMounts pvcs logEnv where
    v: "solrVolumesAndMounts api solrCloud reconcileConfigInfo tls = Some (solrVolumes, volumeMounts, pvcs, logEnv)"
    and pv: "podVolumes (ssTemplateSpec stateful) = solrVolumes"
    and c: "podContainers (ssTemplateSpec stateful) =
        withSidecarContainers solrCloud
          [solrContainer api solrCloud solrCloudStatus tls volumeMounts
             (solrEnvVars api solrCloud solrCloudStatus logEnv)]"
    by blast
  from solrVolumesAndMounts_probe [OF v] obtain vs ms where
    vs: "solrVolumes = vs @ optionToList (fst (snd (snd (defaultProbeHandler api solrCloud tls))))"
    and ms: "volumeMounts = ms @ optionToList (snd (snd (snd (defaultProbeHandler api solrCloud tls))))"
    by blast
  let ?c0 = "podContainers (ssTemplateSpec stateful) ! 0"
  have c0: "?c0 = solrContainer api solrCloud solrCloudStatus tls volumeMounts
             (solrEnvVars api solrCloud solrCloudStatus logEnv)"
    unfolding c by (rule withSidecarContainers_first)
  have live: "containerLivenessProbe ?c0 =
     (let livenessProbe =
            \<lparr>probeInitialDelaySeconds = 20,
             probeTimeoutSeconds = fst (snd (defaultProbeHandler api solrCloud tls)),
             probeSuccessThreshold = 1, probeFailureThreshold = 3, probePeriodSeconds = 10,
             probeHandler = fst (defaultProbeHandler api solrCloud tls)\<rparr>
      in case livenessProbeOverride solrCloud of
           None \<Rightarrow> Some livenessProbe
         | Some customProbe \<Rightarrow> Some (customizeProbe api livenessProbe customProbe))"
    unfolding c0 solrContainer_probes livenessProbeOverride_def
    by (simp add: Let_def split: option.split)
  have ready: "containerReadinessProbe ?c0 =
     (let readinessProbe =
            \<lparr>probeInitialDelaySeconds = 15,
             probeTimeoutSeconds = fst (snd (defaultProbeHandler api solrCloud tls)),
             probeSuccessThreshold = 1, probeFailureThreshold = 3, probePeriodSeconds = 5,
             probeHandler = fst (defaultProbeHandler api solrCloud tls)\<rparr>
      in case readinessProbeOverride solrCloud of
           None \<Rightarrow> Some readinessProbe
         | Some customProbe \<Rightarrow> Some (customizeProbe api readinessProbe customProbe))"
    unfolding c0 solrContainer_probes readinessProbeOverride_def
    by (simp add: Let_def split: option.split)
  have mounts: "containerVolumeMounts ?c0 = volumeMounts"
    unfolding c0 by (rule solrContainer_probes)
  have port: "httpPort (defaultHTTPGet solrCloud tls)
      = int32 (addrPodPort (specSolrAddressability (cloudSpec solrCloud)))"
    and path: "httpPath (defaultHTTPGet solrCloud tls) = ''/solr/admin/info/system''"
    by (simp_all add: defaultHTTPGet_def DefaultProbePath_def)
  have auth: "last solrVolumes = the (fst (snd (configureSecureProbeCommand api solrCloud (defaultHTTPGet solrCloud tls))))
      \<and> last volumeMounts = the (snd (snd (configureSecureProbeCommand api solrCloud (defaultHTTPGet solrCloud tls))))"
    if "probesRequireAuth solrCloud"
  proof -
    from that have "probesNeedCommand solrCloud tls" by (simp add: probesNeedCommand_iff)
    then show ?thesis
      unfolding vs ms defaultProbeHandler_eq configureSecureProbeCommand_auth [OF that]
      by (simp add: optionToList_def)
  qed
  show ?thesis
    apply (rule exI [of _ stateful])
    apply (intro conjI)
      apply (rule s)
     apply (rule GenerateStatefulSet_eq [OF s])
    unfolding Let_def live ready mounts pv
    apply (intro conjI)
      apply (simp add: defaultProbeHandler_eq probesNeedCommand_iff split: option.split)
     apply (simp add: defaultProbeHandler_eq probesNeedCommand_iff split: option.split)
    apply (rule impI)
    apply (frule auth)
    apply (simp add: configureSecureProbeCommand_auth port path)
    done
qed

text \<open>
  C5, as the code has it. In the StatefulSet as \<^verbatim>\<open>GenerateStatefulSet\<close> builds it and
  hands it to the TLS enrichment, the liveness and the readiness probe of the Solr container
  are computed probes, over which \<open>customizeProbe\<close> lays the probe of the pod options when
  they give one. The computed probes run a command instead of the HTTP GET exactly when the
  TLS server configuration asks for a client certificate or the security options ask the
  probes to authenticate, and then their timeout is 5 seconds instead of 1. When the probes
  must authenticate, the basic-auth secret is the last volume of the pod, mounted last in
  the container under \<^verbatim>\<open>/etc/secrets\<close>, and the command reads the user name and the
  password from the files of that mount.
\<close>

theorem GenerateStatefulSet_probes:
  assumes "noNilDereference api solrCloud"
  shows \<open>\<exists>stateful.
    solrStatefulSet api solrCloud solrCloudStatus hostNameIPs reconcileConfigInfo tls = Some stateful
    \<and> GenerateStatefulSet api solrCloud solrCloudStatus hostNameIPs reconcileConfigInfo tls
        = Some (case tls of
                  Some t \<Rightarrow> enableTLSOnSolrCloudStatefulSet api t stateful
                | None \<Rightarrow> stateful)
    \<and> (let secure = (clientAuthRequired tls \<or> probesRequireAuth solrCloud);
            probeCommand = fst (configureSecureProbeCommand api solrCloud (defaultHTTPGet solrCloud tls));
            handler =
              (if secure then emptyHandler\<lparr>handlerExec := Some [''sh'', ''-c'', probeCommand]\<rparr>
               else emptyHandler\<lparr>handlerHTTPGet := Some (defaultHTTPGet solrCloud tls)\<rparr>);
            timeout = (if secure then 5 else 1);
            livenessProbe =
              \<lparr>probeInitialDelaySeconds = 20, probeTimeoutSeconds = timeout,
               probeSuccessThreshold = 1, probeFailureThreshold = 3, probePeriodSeconds = 10,
               probeHandler = handler\<rparr>;
            readinessProbe =
              \<lparr>probeInitialDelaySeconds = 15, probeTimeoutSeconds = timeout,
               probeSuccessThreshold = 1, probeFailureThreshold = 3, probePeriodSeconds = 5,
               probeHandler = handler\<rparr>;
            secretVolume = ReplaceAllDotDash (BasicAuthSecretName api solrCloud);
            secretPath = ''/etc/secrets/'' @ secretVolume
        in containerLivenessProbe (podContainers (ssTemplateSpec stateful) ! 0) =
             (case livenessProbeOverride solrCloud of
                None \<Rightarrow> Some livenessProbe
              | Some customProbe \<Rightarrow> Some (customizeProbe api livenessProbe customProbe))
         \<and> containerReadinessProbe (podContainers (ssTemplateSpec stateful) ! 0) =
             (case readinessProbeOverride solrCloud of
                None \<Rightarrow> Some readinessProbe
              | Some customProbe \<Rightarrow> Some (customizeProbe api readinessProbe customProbe))
         \<and> (probesRequireAuth solrCloud \<longrightarrow>
               last (podVolumes (ssTemplateSpec stateful)) =
                 \<lparr>volName = secretVolume,
                  volSource = emptyVolumeSource
                    \<lparr>vsSecret := Some
                       \<lparr>secretRefName = BasicAuthSecretName api solrCloud,
                        secretDefaultMode = Some (SecretReadOnlyPermissions api)\<rparr>\<rparr>\<rparr>
               \<and> last (containerVolumeMounts (podContainers (ssTemplateSpec stateful) ! 0)) =
                   plainMount secretVolume secretPath
               \<and> probeCommand =
                   collapseSpaces (TrimSpace
                     (''JAVA_TOOL_OPTIONS="''
                      @ TrimSpace
                          (''-Dbasicauth=$(cat '' @ secretPath @ ''/username):$(cat '' @ secretPath
                           @ ''/password)'' @ '' '' @ fst (secureProbeTLSJavaToolOpts api solrCloud))
                      @ ''" java '' @ snd (secureProbeTLSJavaToolOpts api solrCloud) @ '' ''
                      @ '' -Dsolr.httpclient.builder.factory=org.apache.solr.client.solrj.impl.PreemptiveBasicAuthClientBuilderFactory ''
                      @ '' ''
                      @ ''-Dsolr.install.dir="/opt/solr" -Dlog4j.configurationFile="/opt/solr/server/resources/log4j2-console.xml" ''
                      @ ''-classpath "/opt/solr/server/solr-webapp/webapp/WEB-INF/lib/*:/opt/solr/server/lib/ext/*:/opt/solr/server/lib/*" ''
                      @ ''org.apache.solr.util.SolrCLI api -get '' @ UrlScheme api solrCloud False
                      @ ''://localhost:''
                      @ Itoa (int32 (addrPodPort (specSolrAddressability (cloudSpec solrCloud))))
                      @ ''/solr/admin/info/system''))))\<close>
  by (rule solrStatefulSet_probes [OF assms])


theorem GenerateStatefulSet_probes_witness:
  "noNilDereference exampleApi (withSecurity \<lparr>securityProbesRequireAuth = True\<rparr> exampleCloud)
   \<and> probesRequireAuth (withSecurity \<lparr>securityProbesRequireAuth = True\<rparr> exampleCloud)
   \<and> (\<exists>stateful probe.
        GenerateStatefulSet exampleApi (withSecurity \<lparr>securityProbesRequireAuth = True\<rparr> exampleCloud)
          exampleStatus [] Map.empty None = Some stateful
        \<and> containerLivenessProbe (podContainers (ssTemplateSpec stateful) ! 0) = Some probe
        \<and> probeTimeoutSeconds probe = 5
        \<and> handlerHTTPGet (probeHandler probe) = None
        \<and> handlerExec (probeHandler probe) =
            Some [''sh'', ''-c'',
              fst (configureSecureProbeCommand exampleApi
                (withSecurity \<lparr>securityProbesRequireAuth = True\<rparr> exampleCloud)
                (defaultHTTPGet (withSecurity \<lparr>securityProbesRequireAuth = True\<rparr> exampleCloud) None))]
        \<and> mountPath (last (containerVolumeMounts (podContainers (ssTemplateSpec stateful) ! 0)))
            = ''/etc/secrets/example-solrcloud-basic-auth'')
   \<and> noNilDereference exampleApi exampleCloud
   \<and> (\<exists>stateful probe.
        GenerateStatefulSet exampleApi exampleCloud exampleStatus [] Map.empty None = Some stateful
        \<and> containerReadinessProbe (podContainers (ssTemplateSpec stateful) ! 0) = Some probe
        \<and> probeTimeoutSeconds probe = 1
        \<and> handlerExec (probeHandler probe) = None
        \<and> handlerHTTPGet (probeHandler probe) =
            Some \<lparr>httpScheme = URISchemeHTTP, httpPath = ''/solr/admin/info/system'', httpPort = 8983\<rparr>)"
proof -
  let ?secured = "withSecurity \<lparr>securityProbesRequireAuth = True\<rparr> exampleCloud"
  have n1: "noNilDereference exampleApi ?secured"
    by (simp add: noNilDereference_def exampleApi_def exampleCloud_def withSecurity_def)
  have n2: "noNilDereference exampleApi exampleCloud"
    by (simp add: noNilDereference_def exampleApi_def exampleCloud_def)
  have a1: "probesRequireAuth ?secured"
    by (simp add: probesRequireAuth_def withSecurity_def)
  have a2: "\<not> probesRequireAuth exampleCloud"
    by (simp add: probesRequireAuth_def exampleCloud_def)
  have t: "\<not> clientAuthRequired None"
    by (simp add: clientAuthRequired_def)
  have o: "livenessProbeOverride ?secured = None" "readinessProbeOverride exampleCloud = None"
    by (simp_all add: livenessProbeOverride_def readinessProbeOverride_def withSecurity_def
        exampleCloud_def)
  have name: "ReplaceAllDotDash (BasicAuthSecretName exampleApi ?secured) = ''example-solrcloud-basic-auth''"
    by (simp add: ReplaceAllDotDash_def exampleApi_def withSecurity_def exampleCloud_def)
  have get: "defaultHTTPGet exampleCloud None =
      \<lparr>httpScheme = URISchemeHTTP, httpPath = ''/solr/admin/info/system'', httpPort = 8983\<rparr>"
    by (simp add: defaultHTTPGet_def DefaultProbePath_def exampleCloud_def int32_def)
  from GenerateStatefulSet_probes [OF n1, of exampleStatus "[]" Map.empty None]
  obtain s1 where
    s1: "GenerateStatefulSet exampleApi ?secured exampleStatus [] Map.empty None = Some s1"
    and l1: "containerLivenessProbe (podContainers (ssTemplateSpec s1) ! 0) =
      Some \<lparr>probeInitialDelaySeconds = 20, probeTimeoutSeconds = 5,
            probeSuccessThreshold = 1, probeFailureThreshold = 3, probePeriodSeconds = 10,
            probeHandler = emptyHandler\<lparr>handlerExec := Some [''sh'', ''-c'',
              fst (configureSecureProbeCommand exampleApi ?secured (defaultHTTPGet ?secured None))]\<rparr>\<rparr>"
    and m1: "last (containerVolumeMounts (podContainers (ssTemplateSpec s1) ! 0)) =
      plainMount ''example-solrcloud-basic-auth'' ''/etc/secrets/example-solrcloud-basic-auth''"
    unfolding Let_def o name using a1 by auto
  from GenerateStatefulSet_probes [OF n2, of exampleStatus "[]" Map.empty None]
  obtain s2 where
    s2: "GenerateStatefulSet exampleApi exampleCloud exampleStatus [] Map.empty None = Some s2"
    and l2: "containerReadinessProbe (podContainers (ssTemplateSpec s2) ! 0) =
      Some \<lparr>probeInitialDelaySeconds = 15, probeTimeoutSeconds = 1,
            probeSuccessThreshold = 1, probeFailureThreshold = 3, probePeriodSeconds = 5,
            probeHandler = emptyHandler\<lparr>handlerHTTPGet := Some (defaultHTTPGet exampleCloud None)\<rparr>\<rparr>"
    unfolding Let_def o using a2 t by auto
  show ?thesis
    using n1 n2 a1 s1 l1 m1 s2 l2
    by (simp add: emptyHandler_def plainMount_def get)
qed

theorem GenerateStatefulSet_probes_counterexample:
  "probesRequireAuth
     (withSecurity \<lparr>securityProbesRequireAuth = True\<rparr>
        (withPodOptions (examplePodOptions\<lparr>podOptLivenessProbe := Some httpLivenessProbe\<rparr>)
           exampleCloud))
   \<and> map_option
       (\<lambda>stateful. map_option probeHandler
          (containerLivenessProbe (podContainers (ssTemplateSpec stateful) ! 0)))
       (GenerateStatefulSet exampleApi
          (withSecurity \<lparr>securityProbesRequireAuth = True\<rparr>
             (withPodOptions (examplePodOptions\<lparr>podOptLivenessProbe := Some httpLivenessProbe\<rparr>)
                exampleCloud))
          exampleStatus [] Map.empty None)
      = Some (Some (emptyHandler
          \<lparr>handlerHTTPGet := Some
             \<lparr>httpScheme = URISchemeHTTP, httpPath = ''/solr/admin/info/health'', httpPort = 8983\<rparr>\<rparr>))"
proof -
  let ?cloud = "withSecurity \<lparr>securityProbesRequireAuth = True\<rparr>
        (withPodOptions (examplePodOptions\<lparr>podOptLivenessProbe := Some httpLivenessProbe\<rparr>)
           exampleCloud)"
  have n: "noNilDereference exampleApi ?cloud"
    by (simp add: noNilDereference_def exampleApi_def exampleCloud_def withSecurity_def
        withPodOptions_def)
  have a: "probesRequireAuth ?cloud"
    by (simp add: probesRequireAuth_def withSecurity_def)
  have o: "livenessProbeOverride ?cloud = Some httpLivenessProbe"
    by (simp add: livenessProbeOverride_def withSecurity_def withPodOptions_def)
  have c: "customizeProbe exampleApi = customizeProbeFromSpec"
    by (simp add: exampleApi_def)
  from solrStatefulSet_probes [OF n, of exampleStatus "[]" Map.empty None]
  obtain stateful where
    s: "GenerateStatefulSet exampleApi ?cloud exampleStatus [] Map.empty None = Some stateful"
    and l: "\<exists>probe. containerLivenessProbe (podContainers (ssTemplateSpec stateful) ! 0) =
      Some (customizeProbeFromSpec probe httpLivenessProbe)"
    unfolding Let_def o c by auto
  from l obtain probe where
    "containerLivenessProbe (podContainers (ssTemplateSpec stateful) ! 0) =
      Some (customizeProbeFromSpec probe httpLivenessProbe)" by blast
  then show ?thesis
    using a s by (simp add: customizeProbeFromSpec_def httpLivenessProbe_def emptyHandler_def)
qed

subsection \<open>Independence of the order of map iteration\<close>

lemma sort_distinct_eq_sorted_list_of_set:
  assumes "distinct xs"
  shows "sort xs = sorted_list_of_set (set xs)"
  using assms by (simp add: sorted_list_of_set_sort_remdups distinct_remdups_id)

lemma hostAliasesOf_closed:
  assumes "distinct (map fst hostNameIPs)"
  shows "hostAliasesOf hostNameIPs =
    map (\<lambda>hostName.
          \<lparr>aliasIP = lookupString (map_of hostNameIPs) hostName, aliasHostnames = [hostName]\<rparr>)
      (sorted_list_of_set (dom (map_of hostNameIPs)))"
proof -
  have d: "dom (map_of hostNameIPs) = set (map fst hostNameIPs)"
    by (simp add: dom_map_of_conv_image_fst)
  show ?thesis
  proof (cases "hostNameIPs = []")
    case True
    then show ?thesis by (simp add: hostAliasesOf_def)
  next
    case False
    then show ?thesis
      unfolding d sort_distinct_eq_sorted_list_of_set [OF assms, symmetric]
      by (simp add: hostAliasesOf_def Let_def)
  qed
qed

lemma hostAliasesOf_order:
  assumes "distinct (map fst hostNameIPs)" and "distinct (map fst hostNameIPs')"
    and "map_of hostNameIPs' = map_of hostNameIPs"
  shows "hostAliasesOf hostNameIPs' = hostAliasesOf hostNameIPs"
  unfolding hostAliasesOf_closed [OF assms(1)] hostAliasesOf_closed [OF assms(2)] assms(3) ..

lemma GenerateConfigMap_order:
  assumes "validRangeOrder rangeOrder (repoLibs api (specBackupRepositories (cloudSpec solrCloud)))"
    and "validRangeOrder rangeOrder' (repoLibs api (specBackupRepositories (cloudSpec solrCloud)))"
  shows "GenerateConfigMap api rangeOrder' solrCloud = GenerateConfigMap api rangeOrder solrCloud"
  unfolding GenerateConfigMap_def
    GenerateBackupRepositoriesForSolrXml_closed [OF assms(1)]
    GenerateBackupRepositoriesForSolrXml_closed [OF assms(2)] ..

text \<open>
  C10. The generated objects do not depend on the order in which a call ranges over a Go
  map. Two calls of \<^verbatim>\<open>GenerateStatefulSet\<close> on the same inputs, whose host-name maps
  have the same contents and are visited in different orders, return the same result; two
  calls of \<^verbatim>\<open>GenerateConfigMap\<close> on the same SolrCloud, ranging over the library names
  in different orders, return the same ConfigMap. The host aliases of the StatefulSet are
  sorted by host name and are a function of the contents of the map. The three Services
  and the Ingress range over no map in this file: in the embedding they are functions of
  their arguments.
\<close>

theorem generated_objects_deterministic:
  assumes "distinct (map fst hostNameIPs)" and "distinct (map fst hostNameIPs')"
    and "map_of hostNameIPs' = map_of hostNameIPs"
    and "validRangeOrder rangeOrder (repoLibs api (specBackupRepositories (cloudSpec solrCloud)))"
    and "validRangeOrder rangeOrder' (repoLibs api (specBackupRepositories (cloudSpec solrCloud)))"
  shows "GenerateStatefulSet api solrCloud solrCloudStatus hostNameIPs' reconcileConfigInfo tls
      = GenerateStatefulSet api solrCloud solrCloudStatus hostNameIPs reconcileConfigInfo tls
    \<and> GenerateConfigMap api rangeOrder' solrCloud = GenerateConfigMap api rangeOrder solrCloud
    \<and> hostAliasesOf hostNameIPs =
        map (\<lambda>hostName.
              \<lparr>aliasIP = lookupString (map_of hostNameIPs) hostName, aliasHostnames = [hostName]\<rparr>)
          (sorted_list_of_set (dom (map_of hostNameIPs)))
    \<and> sorted (map (\<lambda>alias. hd (aliasHostnames alias)) (hostAliasesOf hostNameIPs))
    \<and> (\<forall>stateful.
         solrStatefulSet api solrCloud solrCloudStatus hostNameIPs reconcileConfigInfo tls = Some stateful
         \<longrightarrow> podHostAliases (ssTemplateSpec stateful) = hostAliasesOf hostNameIPs)"
proof -
  have "sorted (map (\<lambda>alias. hd (aliasHostnames alias)) (hostAliasesOf hostNameIPs))"
    unfolding hostAliasesOf_closed [OF assms(1)] by (simp add: comp_def)
  moreover have "GenerateStatefulSet api solrCloud solrCloudStatus hostNameIPs' reconcileConfigInfo tls
      = GenerateStatefulSet api solrCloud solrCloudStatus hostNameIPs reconcileConfigInfo tls"
    unfolding GenerateStatefulSet_def solrStatefulSet_def hostAliasesOf_order [OF assms(1,2,3)] ..
  moreover have "\<forall>stateful.
         solrStatefulSet api solrCloud solrCloudStatus hostNameIPs reconcileConfigInfo tls = Some stateful
         \<longrightarrow> podHostAliases (ssTemplateSpec stateful) = hostAliasesOf hostNameIPs"
    using solrStatefulSet_parts by blast
  ultimately show ?thesis
    using GenerateConfigMap_order [OF assms(4,5)] hostAliasesOf_closed [OF assms(1)] by blast
qed


theorem generated_objects_deterministic_witness:
  "distinct (map fst exampleHostNameIPs) \<and> distinct (map fst (rev exampleHostNameIPs))
   \<and> map_of (rev exampleHostNameIPs) = map_of exampleHostNameIPs
   \<and> validRangeOrder sorted_list_of_set
       (repoLibs exampleApi
          (specBackupRepositories (cloudSpec (withBackupRepositories exampleRepositories exampleCloud))))
   \<and> validRangeOrder (\<lambda>keys. rev (sorted_list_of_set keys))
       (repoLibs exampleApi
          (specBackupRepositories (cloudSpec (withBackupRepositories exampleRepositories exampleCloud))))
   \<and> GenerateStatefulSet exampleApi (withBackupRepositories exampleRepositories exampleCloud)
        exampleStatus (rev exampleHostNameIPs) Map.empty None
      = GenerateStatefulSet exampleApi (withBackupRepositories exampleRepositories exampleCloud)
          exampleStatus exampleHostNameIPs Map.empty None
   \<and> GenerateConfigMap exampleApi (\<lambda>keys. rev (sorted_list_of_set keys))
        (withBackupRepositories exampleRepositories exampleCloud)
      = GenerateConfigMap exampleApi sorted_list_of_set
          (withBackupRepositories exampleRepositories exampleCloud)
   \<and> map aliasHostnames (hostAliasesOf exampleHostNameIPs) =
       [[''zk-0.example.internal''], [''zk-1.example.internal''], [''zk-2.example.internal'']]"
proof -
  let ?cloud = "withBackupRepositories exampleRepositories exampleCloud"
  have d: "distinct (map fst exampleHostNameIPs)" "distinct (map fst (rev exampleHostNameIPs))"
    by (simp_all add: exampleHostNameIPs_def)
  have m: "map_of (rev exampleHostNameIPs) = map_of exampleHostNameIPs"
    by (rule ext) (simp add: exampleHostNameIPs_def)
  have v: "validRangeOrder sorted_list_of_set
       (repoLibs exampleApi (specBackupRepositories (cloudSpec ?cloud)))"
    "validRangeOrder (\<lambda>keys. rev (sorted_list_of_set keys))
       (repoLibs exampleApi (specBackupRepositories (cloudSpec ?cloud)))"
    by (simp_all add: validRangeOrder_def repoLibs_def)
  have a: "map aliasHostnames (hostAliasesOf exampleHostNameIPs) =
       [[''zk-0.example.internal''], [''zk-1.example.internal''], [''zk-2.example.internal'']]"
    by (simp add: hostAliasesOf_def exampleHostNameIPs_def)
  from generated_objects_deterministic [OF d m v, of exampleStatus Map.empty None] d m v a
  show ?thesis by blast
qed

subsection \<open>Password hashes verify\<close>

lemma distinct_encodeStd: "distinct encodeStd"
  by (simp add: encodeStd_def)

lemma length_encodeStd: "length encodeStd = 64"
  by (simp add: encodeStd_def)


lemma b64index_b64char: "n < 64 \<Longrightarrow> b64index (b64char n) = Some n"
  unfolding b64index_def b64char_def
  using map_of_zip_nth [of encodeStd "[0 ..< 64]" n]
  by (simp add: distinct_encodeStd length_encodeStd)

lemma b64char_not_pad: "n < 64 \<Longrightarrow> b64char n \<noteq> CHR ''=''"
proof -
  assume "n < 64"
  then have "b64char n \<in> set encodeStd"
    by (simp add: b64char_def length_encodeStd)
  moreover have "CHR ''='' \<notin> set encodeStd"
    by (simp add: encodeStd_def)
  ultimately show ?thesis by metis
qed

lemma byte_bound: "(of_char (a::char) :: nat) < 256"
  by (rule nat_of_char_less_256)

lemma sextets:
  fixes a b c :: nat
  assumes "a < 256" "b < 256" "c < 256"
  shows "a div 4 < 64" "(a mod 4) * 16 + b div 16 < 64" "(b mod 16) * 4 + c div 64 < 64"
    "c mod 64 < 64" "(a mod 4) * 16 < 64" "(b mod 16) * 4 < 64"
  using assms by simp_all

lemma regroup1:
  fixes a b :: nat
  assumes "b < 256"
  shows "(a div 4) * 4 + ((a mod 4) * 16 + b div 16) div 16 = a"
proof -
  from assms have "b div 16 < 16" by simp
  then have "((a mod 4) * 16 + b div 16) div 16 = a mod 4" by simp
  then show ?thesis by simp
qed

lemma regroup2:
  fixes a b c :: nat
  assumes "b < 256" "c < 256"
  shows "(((a mod 4) * 16 + b div 16) mod 16) * 16 + ((b mod 16) * 4 + c div 64) div 4 = b"
proof -
  from assms have "b div 16 < 16" "c div 64 < 4" by simp_all
  then have "((a mod 4) * 16 + b div 16) mod 16 = b div 16"
    "((b mod 16) * 4 + c div 64) div 4 = b mod 16" by simp_all
  then show ?thesis by simp
qed

lemma regroup3:
  fixes b c :: nat
  assumes "c < 256"
  shows "(((b mod 16) * 4 + c div 64) mod 4) * 64 + c mod 64 = c"
proof -
  from assms have "c div 64 < 4" by simp
  then have "((b mod 16) * 4 + c div 64) mod 4 = c div 64" by simp
  then show ?thesis by simp
qed


lemma regroup_pad1:
  fixes a :: nat
  shows "(a div 4) * 4 + ((a mod 4) * 16) div 16 = a" "((a mod 4) * 16) mod 16 = 0"
  by simp_all

lemma regroup_pad2:
  fixes a b :: nat
  assumes "b < 256"
  shows "(((a mod 4) * 16 + b div 16) mod 16) * 16 + ((b mod 16) * 4) div 4 = b"
    "((b mod 16) * 4) mod 4 = 0"
proof -
  from assms have "b div 16 < 16" by simp
  then have "((a mod 4) * 16 + b div 16) mod 16 = b div 16" by simp
  then show "(((a mod 4) * 16 + b div 16) mod 16) * 16 + ((b mod 16) * 4) div 4 = b" by simp
  show "((b mod 16) * 4) mod 4 = 0" by simp
qed

lemma EncodeToString_Nil_iff: "EncodeToString xs = [] \<longleftrightarrow> xs = []"
  by (induction xs rule: EncodeToString.induct) simp_all

lemma nibble_bounds:
  fixes n :: nat
  assumes "n < 256"
  shows "n div 16 < 16" "n div 64 < 4"
  using assms by simp_all

lemma byte_div:
  "(of_char b :: nat) div 16 div 16 = 0" "(of_char b :: nat) div 16 mod 16 = of_char b div 16"
  "(of_char b :: nat) div 64 div 4 = 0" "(of_char b :: nat) div 64 mod 4 = of_char b div 64"
proof -
  have l: "(of_char b :: nat) div 16 < 16" "(of_char b :: nat) div 64 < 4"
    by (rule nibble_bounds [OF byte_bound])+
  from l(1) show "(of_char b :: nat) div 16 div 16 = 0" by (rule div_less)
  from l(1) show "(of_char b :: nat) div 16 mod 16 = of_char b div 16" by (rule mod_less)
  from l(2) show "(of_char b :: nat) div 64 div 4 = 0" by (rule div_less)
  from l(2) show "(of_char b :: nat) div 64 mod 4 = of_char b div 64" by (rule mod_less)
qed

lemmas b64_facts = byte_div
  b64index_b64char b64char_not_pad sextets [OF byte_bound byte_bound byte_bound]
  regroup1 [OF byte_bound] regroup2 [OF byte_bound byte_bound] regroup3 [OF byte_bound]
  regroup_pad1 regroup_pad2 [OF byte_bound]

lemma DecodeString_EncodeToString: "DecodeString (EncodeToString bytes) = Some bytes"
proof (induction bytes rule: EncodeToString.induct)
  case 1
  show ?case by simp
next
  case (2 a)
  show ?case by (simp add: b64_facts)
next
  case (3 a b)
  show ?case by (simp add: b64_facts)
next
  case (4 a b c rest)
  show ?case
  proof (cases "EncodeToString rest")
    case Nil
    then have "rest = []" by (simp add: EncodeToString_Nil_iff)
    then show ?thesis by (simp add: b64_facts)
  next
    case (Cons e es)
    with 4 have "DecodeString (e # es) = Some rest" by simp
    with Cons show ?thesis by (simp add: b64_facts)
  qed
qed

lemma EncodeToString_no_space: "CHR '' '' \<notin> set (EncodeToString bytes)"
proof -
  have s: "CHR '' '' \<notin> set encodeStd" by (simp add: encodeStd_def)
  have c: "b64char n \<noteq> CHR '' ''" if "n < 64" for n
  proof -
    from that have "b64char n \<in> set encodeStd" by (simp add: b64char_def length_encodeStd)
    with s show ?thesis by metis
  qed
  show ?thesis
    by (induction bytes rule: EncodeToString.induct)
      (simp_all add: c [symmetric] sextets [OF byte_bound byte_bound byte_bound])
qed


lemma credentialFields_joined:
  assumes "CHR '' '' \<notin> set first"
  shows "credentialFields (first @ '' '' @ second) = (first, second)"
proof -
  from assms have n: "\<forall>x \<in> set first. x \<noteq> CHR '' ''" by blast
  then have "takeWhile (\<lambda>c. c \<noteq> CHR '' '') (first @ '' '' @ second) = first"
    by (simp add: takeWhile_tail)
  moreover from n have "dropWhile (\<lambda>c. c \<noteq> CHR '' '') (first @ '' '' @ second) = '' '' @ second"
    by (simp add: dropWhile_append2)
  ultimately show ?thesis by (simp add: credentialFields_def)
qed

text \<open>
  C1. For every password, the credential that \<^verbatim>\<open>solrPasswordHash\<close> returns is the
  base64 encoding of \<open>Sum256 (Sum256 (salt @ password))\<close>, one space, and the base64
  encoding of the salt, where the salt is \<open>Sum256\<close> of the 32 bytes that \<^verbatim>\<open>rand.Read\<close>
  gave in this call. Splitting the credential at its first space and decoding the second
  field gives the salt back, and the recomputation from that salt and the password equals
  the first field.
\<close>

theorem solrPasswordHash_verifies:
  assumes "length (randRead 32) = 32"
  shows "\<exists>salt.
    salt = Sum256 (randRead 32) \<and> length (randRead 32) = 32
    \<and> randomSaltHash Sum256 randRead = salt
    \<and> solrPasswordHash Sum256 randRead passBytes =
        EncodeToString (Sum256 (Sum256 (salt @ passBytes))) @ '' '' @ EncodeToString salt
    \<and> credentialFields (solrPasswordHash Sum256 randRead passBytes) =
        (EncodeToString (Sum256 (Sum256 (salt @ passBytes))), EncodeToString salt)
    \<and> DecodeString (snd (credentialFields (solrPasswordHash Sum256 randRead passBytes))) = Some salt
    \<and> verifiesPassword Sum256 (solrPasswordHash Sum256 randRead passBytes) passBytes"
proof -
  let ?salt = "Sum256 (randRead 32)"
  have r: "randomSaltHash Sum256 randRead = ?salt"
    by (simp add: randomSaltHash_def)
  have h: "solrPasswordHash Sum256 randRead passBytes =
        EncodeToString (Sum256 (Sum256 (?salt @ passBytes))) @ '' '' @ EncodeToString ?salt"
    by (simp add: solrPasswordHash_def r Let_def)
  have f: "credentialFields (solrPasswordHash Sum256 randRead passBytes) =
        (EncodeToString (Sum256 (Sum256 (?salt @ passBytes))), EncodeToString ?salt)"
    unfolding h by (rule credentialFields_joined) (rule EncodeToString_no_space)
  have v: "verifiesPassword Sum256 (solrPasswordHash Sum256 randRead passBytes) passBytes"
    by (simp add: verifiesPassword_def f DecodeString_EncodeToString)
  show ?thesis
    using assms r h f v by (simp add: DecodeString_EncodeToString)
qed

theorem solrPasswordHash_verifies_witness:
  "length (exampleRandRead 32) = 32
   \<and> solrPasswordHash exampleSum256 exampleRandRead ''Abc''
      = EncodeToString (exampleSum256 (exampleSum256 (exampleSum256 (exampleRandRead 32) @ ''Abc'')))
        @ '' '' @ EncodeToString (exampleSum256 (exampleRandRead 32))
   \<and> verifiesPassword exampleSum256 (solrPasswordHash exampleSum256 exampleRandRead ''Abc'') ''Abc''
   \<and> DecodeString (snd (credentialFields (solrPasswordHash exampleSum256 exampleRandRead ''Abc'')))
      = Some (exampleSum256 (exampleRandRead 32))"
proof -
  have l: "length (exampleRandRead 32) = 32" by (simp add: exampleRandRead_def)
  from solrPasswordHash_verifies [of exampleRandRead exampleSum256 "''Abc''", OF l] l
  show ?thesis by auto
qed

subsection \<open>Labels of the generated objects\<close>

lemma keepsBaseKeys_D:
  assumes "keepsBaseKeys api" and "k \<in> dom base"
  shows "k \<in> dom (MergeLabelsOrAnnotations api base additional)"
  using assms unfolding keepsBaseKeys_def by blast

lemma statefulSetLabels_keys:
  assumes "keepsBaseKeys api"
  shows "dom (statefulSetBaseLabels api solrCloud) \<subseteq> dom (statefulSetLabels api solrCloud)"
    and "dom (statefulSetBaseLabels api solrCloud) \<subseteq> dom (statefulSetPodLabels api solrCloud)"
  using assms
  by (auto simp: statefulSetLabels_def statefulSetPodLabels_def Let_def keepsBaseKeys_def
      split: option.split)

lemma statefulSetBaseLabels_dom:
  "dom (statefulSetBaseLabels api solrCloud) =
     insert ''technology'' (dom (SharedLabelsWith api solrCloud (cloudLabels solrCloud)))"
  by (simp add: statefulSetBaseLabels_def)

















end
